theory Spec2Isabelle
  imports Complex_Main "HOL-Library.AList" "HOL-Library.Sublist"
begin

section \<open>JavaScript values\<close>

text \<open>
  Values that travel through \<^verbatim>\<open>JSON.parse\<close>, \<^verbatim>\<open>JSON.stringify\<close> and the socket
  events. An object is its property list. \<open>JDate\<close> is a \<^verbatim>\<open>Date\<close> object holding a
  clock reading (in seconds).
\<close>

datatype jval =
    JUndef
  | JNull
  | JBool bool
  | JNum rat
  | JStr string
  | JDate nat
  | JArr "jval list"
  | JObj "(string \<times> jval) list"

text \<open>Property read \<^verbatim>\<open>v.k\<close> on a value that is neither \<^verbatim>\<open>null\<close> nor
  \<^verbatim>\<open>undefined\<close> (on those the read throws a TypeError; the callers test \<open>nullish\<close> first).\<close>

fun get_prop :: "jval \<Rightarrow> string \<Rightarrow> jval" where
  "get_prop (JObj fs) k = (case map_of fs k of Some v \<Rightarrow> v | None \<Rightarrow> JUndef)"
| "get_prop v k = JUndef"

definition nullish :: "jval \<Rightarrow> bool" where
  "nullish v = (v = JUndef \<or> v = JNull)"

fun is_reference :: "jval \<Rightarrow> bool" where
  "is_reference (JArr xs) = True"
| "is_reference (JObj fs) = True"
| "is_reference (JDate t) = True"
| "is_reference v = False"

text \<open>\<^verbatim>\<open>a === b\<close> and the \<^verbatim>\<open>Set\<close> membership test, for two values that come from
  different places: primitives compare by value, objects by identity, and two separately
  built objects are never identical.\<close>

definition same_value :: "jval \<Rightarrow> jval \<Rightarrow> bool" where
  "same_value a b = (a = b \<and> \<not> is_reference a)"

text \<open>\<^verbatim>\<open>m.content?.substring(0, 50)\<close> inside a log call: a TypeError when \<open>m\<close> is
  nullish, or when \<open>content\<close> is present and is not a string.\<close>

definition content_preview_ok :: "jval \<Rightarrow> bool" where
  "content_preview_ok m =
     (\<not> nullish m \<and>
      (case get_prop m ''content'' of JUndef \<Rightarrow> True | JNull \<Rightarrow> True | JStr s \<Rightarrow> True | _ \<Rightarrow> False))"

text \<open>\<^verbatim>\<open>s.split(c)\<close> for a one-character separator.\<close>

fun split_on :: "char \<Rightarrow> string \<Rightarrow> string list" where
  "split_on c [] = [[]]"
| "split_on c (x # xs) =
     (if x = c then [] # split_on c xs
      else (case split_on c xs of [] \<Rightarrow> [[x]] | p # ps \<Rightarrow> (x # p) # ps))"

text \<open>\<^verbatim>\<open>xs[1]\<close>: \<^verbatim>\<open>undefined\<close> (here \<open>None\<close>) when the array is shorter.\<close>

fun second :: "'a list \<Rightarrow> 'a option" where
  "second (x # y # ys) = Some y"
| "second xs = None"

section \<open>The process environment\<close>

text \<open>
  What the code takes from its platform: the two JSON functions (\<open>JSON_parse\<close> gives
  \<open>None\<close> where \<^verbatim>\<open>JSON.parse\<close> throws), \<^verbatim>\<open>String.prototype.trim\<close>,
  \<^verbatim>\<open>Date.prototype.toISOString\<close>, the environment variable \<^verbatim>\<open>SERVER_ID\<close> and the string
  \<^verbatim>\<open>Math.random().toString(36)\<close> drawn when the module is loaded.
\<close>

record env =
  JSON_parse :: "string \<Rightarrow> jval option"
  JSON_stringify :: "jval \<Rightarrow> string"
  String_trim :: "string \<Rightarrow> string"
  toISOString :: "nat \<Rightarrow> string"
  env_SERVER_ID :: "string option"
  random36 :: string

text \<open>\<^verbatim>\<open>process.env.X || d\<close>: an unset or empty variable gives the default.\<close>

definition env_or :: "string option \<Rightarrow> string \<Rightarrow> string" where
  "env_or x d = (case x of None \<Rightarrow> d | Some s \<Rightarrow> if s = [] then d else s)"

definition substr :: "nat \<Rightarrow> nat \<Rightarrow> string \<Rightarrow> string" where
  "substr start len s = take len (drop start s)"

text \<open>index.js, lines 26-27.\<close>

definition SERVER_ID :: "env \<Rightarrow> string" where
  "SERVER_ID e = env_or (env_SERVER_ID e) (''server-'' @ substr 2 5 (random36 e))"

section \<open>One server process and its Redis backend\<close>

datatype command =
    PUBLISH string string
  | SUBSCRIBE string
  | SETEX string nat string
  | DEL string
  | GET string
  | KEYS string

text \<open>
  What a handler does to the outside, in order: \<^verbatim>\<open>socket.emit\<close> to one socket,
  \<^verbatim>\<open>io.to(room).emit\<close> to a room, a Redis command with its outcome (\<open>True\<close>: the
  promise resolved), a console line (its fixed text, without the interpolated values).
\<close>

datatype effect =
    SocketEmit string string jval
  | RoomEmit "string option" string jval
  | Redis command bool
  | Console string

record connectionInfo =
  userId :: string
  roomId :: string
  userName :: string
  socketId :: string
  joinedAt :: nat
  serverId :: string

datatype listener = RelayListener | ManagerListener

text \<open>
  \<open>activeConnections\<close> and \<open>subscribedRooms\<close> are the module's \<^verbatim>\<open>Map\<close> and
  \<^verbatim>\<open>Set\<close> (insertion ordered); \<open>socketRooms\<close> is what \<^verbatim>\<open>socket.join\<close> recorded;
  \<open>listeners\<close> are the subscriber connection's \<^verbatim>\<open>"message"\<close> listeners and
  \<open>channels\<close> its subscriptions; \<open>registry\<close> is the key/value store, each value with
  the time at which it expires, in the order \<^verbatim>\<open>KEYS\<close> lists it; \<open>failures\<close> scripts
  the backend: the next Redis call rejects when the head is \<open>True\<close>, and every call
  succeeds once the script is used up; \<open>trace\<close> collects the effects.
\<close>

record world =
  activeConnections :: "(string \<times> connectionInfo) list"
  subscribedRooms :: "string list"
  socketRooms :: "(string \<times> string) list"
  listeners :: "listener list"
  channels :: "string list"
  registry :: "(string \<times> string \<times> nat) list"
  failures :: "bool list"
  trace :: "effect list"

definition emit :: "effect \<Rightarrow> world \<Rightarrow> world" where
  "emit x w = w\<lparr>trace := trace w @ [x]\<rparr>"

definition console :: "string \<Rightarrow> world \<Rightarrow> world" where
  "console s w = emit (Console s) w"

definition socket_emit :: "string \<Rightarrow> string \<Rightarrow> jval \<Rightarrow> world \<Rightarrow> world" where
  "socket_emit socket ev payload w = emit (SocketEmit socket ev payload) w"

definition room_emit :: "string option \<Rightarrow> string \<Rightarrow> jval \<Rightarrow> world \<Rightarrow> world" where
  "room_emit room ev payload w = emit (RoomEmit room ev payload) w"

definition socket_join :: "string \<Rightarrow> string \<Rightarrow> world \<Rightarrow> world" where
  "socket_join socket room w =
     (if (socket, room) \<in> set (socketRooms w) then w
      else w\<lparr>socketRooms := socketRooms w @ [(socket, room)]\<rparr>)"

text \<open>The local sockets an \<^verbatim>\<open>io.to(room).emit\<close> reaches.\<close>

definition recipients :: "world \<Rightarrow> string option \<Rightarrow> string list" where
  "recipients w room = [s. (s, r) \<leftarrow> socketRooms w, Some r = room]"

subsection \<open>The backend\<close>

definition next_outcome :: "world \<Rightarrow> bool \<times> world" where
  "next_outcome w =
     (case failures w of [] \<Rightarrow> (True, w) | f # fs \<Rightarrow> (\<not> f, w\<lparr>failures := fs\<rparr>))"

definition lookup_live :: "nat \<Rightarrow> (string \<times> string \<times> nat) list \<Rightarrow> string \<Rightarrow> string option" where
  "lookup_live now reg key =
     (case map_of reg key of
        None \<Rightarrow> None
      | Some (v, expires) \<Rightarrow> if now < expires then Some v else None)"

definition redis_publish :: "string \<Rightarrow> string \<Rightarrow> world \<Rightarrow> bool \<times> world" where
  "redis_publish channel msg w =
     (let (ok, w1) = next_outcome w in (ok, emit (Redis (PUBLISH channel msg) ok) w1))"

definition redis_subscribe :: "string \<Rightarrow> world \<Rightarrow> bool \<times> world" where
  "redis_subscribe channel w =
     (let (ok, w1) = next_outcome w;
          w2 = emit (Redis (SUBSCRIBE channel) ok) w1
      in (ok, if ok then w2\<lparr>channels := List.insert channel (channels w2)\<rparr> else w2))"

definition redis_setex :: "nat \<Rightarrow> string \<Rightarrow> nat \<Rightarrow> string \<Rightarrow> world \<Rightarrow> bool \<times> world" where
  "redis_setex now key ttl v w =
     (let (ok, w1) = next_outcome w;
          w2 = emit (Redis (SETEX key ttl v) ok) w1
      in (ok, if ok then w2\<lparr>registry := AList.update key (v, now + ttl) (registry w2)\<rparr> else w2))"

definition redis_del :: "string \<Rightarrow> world \<Rightarrow> bool \<times> world" where
  "redis_del key w =
     (let (ok, w1) = next_outcome w;
          w2 = emit (Redis (DEL key) ok) w1
      in (ok, if ok then w2\<lparr>registry := AList.delete key (registry w2)\<rparr> else w2))"

text \<open>\<open>None\<close>: the call rejected; \<open>Some None\<close>: the reply \<^verbatim>\<open>null\<close>.\<close>

definition redis_get :: "nat \<Rightarrow> string \<Rightarrow> world \<Rightarrow> string option option \<times> world" where
  "redis_get now key w =
     (let (ok, w1) = next_outcome w;
          w2 = emit (Redis (GET key) ok) w1
      in (if ok then Some (lookup_live now (registry w2) key) else None, w2))"

text \<open>\<^verbatim>\<open>KEYS p*\<close>: the live keys that start with \<open>p\<close>.\<close>

definition redis_keys :: "nat \<Rightarrow> string \<Rightarrow> world \<Rightarrow> string list option \<times> world" where
  "redis_keys now p w =
     (let (ok, w1) = next_outcome w;
          w2 = emit (Redis (KEYS (p @ ''*'')) ok) w1
      in (if ok
          then Some [k \<leftarrow> map fst (registry w2). prefix p k \<and> lookup_live now (registry w2) k \<noteq> None]
          else None, w2))"

section \<open>RedisManager\<close>

definition publishToRoom :: "env \<Rightarrow> string \<Rightarrow> jval \<Rightarrow> world \<Rightarrow> bool \<times> world" where
  "publishToRoom e room message w =
     (let channel = ''room:'' @ room;
          messageStr = JSON_stringify e message;
          (ok, w1) = redis_publish channel messageStr w
      in if ok \<and> content_preview_ok message then (True, console ''Published to'' w1)
         else (False, console ''Error publishing message:'' w1))"

definition subscribeToRoom :: "string \<Rightarrow> world \<Rightarrow> bool \<times> world" where
  "subscribeToRoom room w =
     (let channel = ''room:'' @ room;
          w1 = (if listeners w = [] then w\<lparr>listeners := [ManagerListener]\<rparr> else w);
          (ok, w2) = redis_subscribe channel w1
      in if ok then (True, console ''Subscribed to'' w2)
         else (False, console ''Error subscribing to room:'' w2))"

definition stored_record :: "env \<Rightarrow> nat \<Rightarrow> (string \<times> jval) list \<Rightarrow> (string \<times> jval) list" where
  "stored_record e now info =
     AList.update ''timestamp'' (JStr (toISOString e now))
       (AList.update ''serverId'' (JStr (env_or (env_SERVER_ID e) ''server-1'')) info)"

definition storeConnection :: "env \<Rightarrow> nat \<Rightarrow> string \<Rightarrow> (string \<times> jval) list \<Rightarrow> world \<Rightarrow> bool \<times> world" where
  "storeConnection e now socket info w =
     (let key = ''connection:'' @ socket;
          v = JSON_stringify e (JObj (stored_record e now info));
          (ok, w1) = redis_setex now key 3600 v w
      in if ok then (True, w1) else (False, console ''Error storing connection:'' w1))"

definition removeConnection :: "string \<Rightarrow> world \<Rightarrow> bool \<times> world" where
  "removeConnection socket w =
     (let key = ''connection:'' @ socket;
          (ok, w1) = redis_del key w
      in if ok then (True, w1) else (False, console ''Error removing connection:'' w1))"

record roomStats =
  stats_roomId :: string
  userCount :: nat
  users :: "jval list"
  stats_timestamp :: string

text \<open>The loop's variables: \<open>roomUserCount\<close>, \<open>users\<close>, \<open>userIds\<close>.\<close>

type_synonym tally = "nat \<times> jval list \<times> jval list"

definition roster_entry :: "jval \<Rightarrow> jval" where
  "roster_entry connection =
     JObj [(''userId'', get_prop connection ''userId''),
           (''userName'', get_prop connection ''userName''),
           (''serverId'', get_prop connection ''serverId''),
           (''joinedAt'', get_prop connection ''timestamp'')]"

definition has :: "jval list \<Rightarrow> jval \<Rightarrow> bool" where
  "has ids v = list_ex (\<lambda>u. same_value u v) ids"

text \<open>The body of the inner \<^verbatim>\<open>try\<close> once \<^verbatim>\<open>get\<close> has replied; \<open>None\<close> when it
  throws.\<close>

definition inspect :: "env \<Rightarrow> string \<Rightarrow> tally \<Rightarrow> string option \<Rightarrow> tally option" where
  "inspect e room acc connectionData =
     (case connectionData of
        None \<Rightarrow> Some acc
      | Some s \<Rightarrow>
          if s = [] then Some acc
          else (case JSON_parse e s of
                  None \<Rightarrow> None
                | Some connection \<Rightarrow>
                    if nullish connection then None
                    else (case acc of (roomUserCount, us, userIds) \<Rightarrow>
                      if same_value (get_prop connection ''roomId'') (JStr room)
                         \<and> \<not> has userIds (get_prop connection ''userId'')
                      then Some (roomUserCount + 1, us @ [roster_entry connection],
                                 userIds @ [get_prop connection ''userId''])
                      else Some acc)))"

text \<open>The \<^verbatim>\<open>for\<close> loop; \<open>None\<close> when the \<^verbatim>\<open>del\<close> of the \<^verbatim>\<open>catch\<close> block
  rejects, which leaves the loop for the outer \<^verbatim>\<open>catch\<close>.\<close>

fun scan :: "env \<Rightarrow> nat \<Rightarrow> string \<Rightarrow> string list \<Rightarrow> tally \<Rightarrow> world \<Rightarrow> tally option \<times> world" where
  "scan e now room [] acc w = (Some acc, w)"
| "scan e now room (key # keys) acc w =
     (case redis_get now key w of (reply, w1) \<Rightarrow>
        (case (case reply of None \<Rightarrow> None | Some connectionData \<Rightarrow> inspect e room acc connectionData) of
           Some acc' \<Rightarrow> scan e now room keys acc' w1
         | None \<Rightarrow>
             (case redis_del key (console ''Failed to parse connection data for key:'' w1) of
                (ok, w2) \<Rightarrow> if ok then scan e now room keys acc w2 else (None, w2))))"

definition getRoomStats :: "env \<Rightarrow> nat \<Rightarrow> string \<Rightarrow> world \<Rightarrow> roomStats \<times> world" where
  "getRoomStats e now room w =
     (case redis_keys now ''connection:'' w of
        (None, w1) \<Rightarrow>
          (\<lparr>stats_roomId = room, userCount = 0, users = [], stats_timestamp = toISOString e now\<rparr>,
           console ''Error getting room stats:'' w1)
      | (Some keys, w1) \<Rightarrow>
          (case scan e now room keys (0, [], []) w1 of
             (Some (roomUserCount, us, userIds), w2) \<Rightarrow>
               (\<lparr>stats_roomId = room, userCount = roomUserCount, users = us,
                 stats_timestamp = toISOString e now\<rparr>, w2)
           | (None, w2) \<Rightarrow>
               (\<lparr>stats_roomId = room, userCount = 0, users = [], stats_timestamp = toISOString e now\<rparr>,
                console ''Error getting room stats:'' w2)))"

section \<open>index.js\<close>

subsection \<open>The subscriber's message listeners\<close>

text \<open>The \<^verbatim>\<open>switch\<close> of \<open>setupRedisMessageHandler\<close>, lines 48-105.\<close>

definition relay :: "jval \<Rightarrow> string option \<Rightarrow> world \<Rightarrow> world" where
  "relay data room w =
     (let t = get_prop data ''type'' in
      if same_value t (JStr ''user_joined'') then
        room_emit room ''user_joined''
          (JObj [(''userId'', get_prop data ''userId''), (''userName'', get_prop data ''userName''),
                 (''roomId'', get_prop data ''roomId''), (''timestamp'', get_prop data ''timestamp'')])
          (console ''Relaying user_joined:'' w)
      else if same_value t (JStr ''user_left'') then
        room_emit room ''user_left''
          (JObj [(''userId'', get_prop data ''userId''), (''userName'', get_prop data ''userName''),
                 (''roomId'', get_prop data ''roomId''), (''timestamp'', get_prop data ''timestamp''),
                 (''reason'', get_prop data ''reason'')])
          (console ''Relaying user_left:'' w)
      else if same_value t (JStr ''room_info'') then
        room_emit room ''room_info''
          (JObj [(''roomId'', get_prop data ''roomId''), (''userCount'', get_prop data ''userCount''),
                 (''timestamp'', get_prop data ''timestamp'')])
          (console ''Relaying room_info for room'' w)
      else if same_value t (JStr ''user_typing'') then
        room_emit room ''user_typing''
          (JObj [(''userId'', get_prop data ''userId''), (''userName'', get_prop data ''userName''),
                 (''isTyping'', get_prop data ''isTyping'')])
          (console ''Relaying typing:'' w)
      else
        room_emit room ''new_message'' data (console ''Relaying message from'' w))"

text \<open>The listener that \<open>setupRedisMessageHandler\<close> attaches, lines 31-109.\<close>

definition relay_listener :: "env \<Rightarrow> string \<Rightarrow> string \<Rightarrow> world \<Rightarrow> world" where
  "relay_listener e channel message w =
     (case JSON_parse e message of
        None \<Rightarrow> console ''Error processing Redis message:'' w
      | Some data \<Rightarrow>
          (let room = second (split_on CHR '':'' channel) in
           if nullish data then console ''Error processing Redis message:'' w
           else if same_value (get_prop data ''serverId'') (JStr (SERVER_ID e)) then w
           else relay data room (console ''Received from'' w)))"

text \<open>The listener that \<open>subscribeToRoom\<close> attaches when there is none, with the callback
  index.js passes, which does nothing.\<close>

definition manager_listener :: "env \<Rightarrow> string \<Rightarrow> string \<Rightarrow> world \<Rightarrow> world" where
  "manager_listener e channel message w =
     (case JSON_parse e message of
        None \<Rightarrow> console ''Error parsing received message:'' w
      | Some parsedMessage \<Rightarrow>
          if content_preview_ok parsedMessage then console ''Received from'' w
          else console ''Error parsing received message:'' w)"

fun run_listener :: "env \<Rightarrow> string \<Rightarrow> string \<Rightarrow> listener \<Rightarrow> world \<Rightarrow> world" where
  "run_listener e channel message RelayListener w = relay_listener e channel message w"
| "run_listener e channel message ManagerListener w = manager_listener e channel message w"

text \<open>A message arrives on the subscriber connection: Redis sends it only for a
  subscribed channel, and every \<^verbatim>\<open>"message"\<close> listener runs, in order.\<close>

definition receive :: "env \<Rightarrow> string \<Rightarrow> string \<Rightarrow> world \<Rightarrow> world" where
  "receive e channel message w =
     (if channel \<in> set (channels w)
      then fold (run_listener e channel message) (listeners w) w
      else w)"

definition setupRedisMessageHandler :: "world \<Rightarrow> world" where
  "setupRedisMessageHandler w = w\<lparr>listeners := listeners w @ [RelayListener]\<rparr>"

text \<open>The process once the module is loaded (line 409 has run): nothing connected, the
  relay listener attached; the registry and the failure script are the backend's.\<close>

definition boot :: "(string \<times> string \<times> nat) list \<Rightarrow> bool list \<Rightarrow> world" where
  "boot reg fs =
     setupRedisMessageHandler
       \<lparr>activeConnections = [], subscribedRooms = [], socketRooms = [], listeners = [],
        channels = [], registry = reg, failures = fs, trace = []\<rparr>"

subsection \<open>The socket handlers\<close>

text \<open>A client payload is an object whose properties are strings; \<open>None\<close> is a payload
  that is \<^verbatim>\<open>undefined\<close> or \<^verbatim>\<open>null\<close>, on which the destructuring throws.\<close>

type_synonym payload = "(string \<times> string) list"

definition falsy :: "string option \<Rightarrow> bool" where
  "falsy x = (case x of None \<Rightarrow> True | Some s \<Rightarrow> s = [])"

definition error_payload :: "string \<Rightarrow> jval" where
  "error_payload m = JObj [(''message'', JStr m)]"

definition object_of :: "connectionInfo \<Rightarrow> (string \<times> jval) list" where
  "object_of c =
     [(''userId'', JStr (userId c)), (''roomId'', JStr (roomId c)), (''userName'', JStr (userName c)),
      (''socketId'', JStr (socketId c)), (''joinedAt'', JDate (joinedAt c)),
      (''serverId'', JStr (serverId c))]"

text \<open>The objects \<open>join_room\<close> and \<open>disconnect\<close> build.\<close>

definition joined_ack :: "env \<Rightarrow> nat \<Rightarrow> string \<Rightarrow> jval" where
  "joined_ack e now room =
     JObj [(''roomId'', JStr room), (''message'', JStr (''Successfully joined '' @ room)),
           (''serverId'', JStr (SERVER_ID e)), (''timestamp'', JDate now)]"

definition join_message :: "env \<Rightarrow> nat \<Rightarrow> string \<Rightarrow> string \<Rightarrow> string \<Rightarrow> jval" where
  "join_message e now uid uname room =
     JObj [(''type'', JStr ''user_joined''), (''userId'', JStr uid), (''userName'', JStr uname),
           (''roomId'', JStr room), (''serverId'', JStr (SERVER_ID e)), (''timestamp'', JDate now)]"

definition leave_message :: "env \<Rightarrow> nat \<Rightarrow> string \<Rightarrow> string \<Rightarrow> string \<Rightarrow> string \<Rightarrow> jval" where
  "leave_message e now uid uname room reason =
     JObj [(''type'', JStr ''user_left''), (''userId'', JStr uid), (''userName'', JStr uname),
           (''roomId'', JStr room), (''serverId'', JStr (SERVER_ID e)), (''timestamp'', JDate now),
           (''reason'', JStr reason)]"

definition room_info_message :: "env \<Rightarrow> nat \<Rightarrow> string \<Rightarrow> nat \<Rightarrow> jval" where
  "room_info_message e now room n =
     JObj [(''type'', JStr ''room_info''), (''roomId'', JStr room), (''userCount'', JNum (of_nat n)),
           (''serverId'', JStr (SERVER_ID e)), (''timestamp'', JDate now)]"

text \<open>\<open>join_room\<close> after the validation, in two parts: lines 129-165, up to the
  confirmation sent to the joining socket, and lines 167-193, the room statistics and the
  two envelopes.\<close>

definition join_local :: "env \<Rightarrow> nat \<Rightarrow> string \<Rightarrow> string \<Rightarrow> string \<Rightarrow> string \<Rightarrow> world \<Rightarrow> world" where
  "join_local e now socket uid room uname w =
     (let w1 = console ''User joining room'' w;
          info = \<lparr>userId = uid, roomId = room, userName = uname, socketId = socket,
                  joinedAt = now, serverId = SERVER_ID e\<rparr>;
          w2 = w1\<lparr>activeConnections := AList.update socket info (activeConnections w1)\<rparr>;
          w3 = snd (storeConnection e now socket (object_of info) w2);
          w4 = socket_join socket room w3;
          w5 = (if room \<notin> set (subscribedRooms w4)
                then (let w' = snd (subscribeToRoom room w4)
                      in w'\<lparr>subscribedRooms := subscribedRooms w' @ [room]\<rparr>)
                else w4)
      in socket_emit socket ''joined_room'' (joined_ack e now room) w5)"

definition join_announce :: "env \<Rightarrow> nat \<Rightarrow> string \<Rightarrow> string \<Rightarrow> string \<Rightarrow> world \<Rightarrow> world" where
  "join_announce e now uid room uname w =
     (case getRoomStats e now room w of
        (stats, w1) \<Rightarrow>
          (let w2 = snd (publishToRoom e room (join_message e now uid uname room) w1)
           in snd (publishToRoom e room (room_info_message e now room (userCount stats)) w2)))"

definition join_valid :: "env \<Rightarrow> nat \<Rightarrow> string \<Rightarrow> string \<Rightarrow> string \<Rightarrow> string \<Rightarrow> world \<Rightarrow> world" where
  "join_valid e now socket uid room uname w =
     join_announce e now uid room uname (join_local e now socket uid room uname w)"

definition join_room :: "env \<Rightarrow> nat \<Rightarrow> string \<Rightarrow> payload option \<Rightarrow> world \<Rightarrow> world" where
  "join_room e now socket userData w =
     (case userData of
        None \<Rightarrow>
          socket_emit socket ''error'' (error_payload ''Failed to join room'')
            (console ''Error in join_room:'' w)
      | Some d \<Rightarrow>
          if falsy (map_of d ''userId'') \<or> falsy (map_of d ''roomId'') \<or> falsy (map_of d ''userName'')
          then socket_emit socket ''error'' (error_payload ''Missing required fields'') w
          else (case (map_of d ''userId'', map_of d ''roomId'', map_of d ''userName'') of
                  (Some uid, Some room, Some uname) \<Rightarrow> join_valid e now socket uid room uname w
                | _ \<Rightarrow> socket_emit socket ''error'' (error_payload ''Missing required fields'') w))"

text \<open>The message object of \<open>send_message\<close>, lines 218-228; \<open>uuid\<close> is what
  \<^verbatim>\<open>uuid.v4()\<close> returns.\<close>

definition chat_message ::
    "env \<Rightarrow> nat \<Rightarrow> string \<Rightarrow> string \<Rightarrow> connectionInfo \<Rightarrow> string \<Rightarrow> string \<Rightarrow> jval" where
  "chat_message e now uuid socket info content type =
     JObj [(''id'', JStr uuid), (''userId'', JStr (userId info)),
           (''userName'', JStr (userName info)), (''roomId'', JStr (roomId info)),
           (''content'', JStr (String_trim e content)), (''type'', JStr type),
           (''serverId'', JStr (SERVER_ID e)), (''timestamp'', JStr (toISOString e now)),
           (''socketId'', JStr socket)]"

text \<open>\<^verbatim>\<open>const { content, type = "text" } = messageData\<close>: the default stands in for
  an absent \<open>type\<close>.\<close>

definition message_type :: "payload \<Rightarrow> string" where
  "message_type d = (case map_of d ''type'' of None \<Rightarrow> ''text'' | Some t \<Rightarrow> t)"

text \<open>\<open>send_message\<close>, lines 201-251.\<close>

definition send_message :: "env \<Rightarrow> nat \<Rightarrow> string \<Rightarrow> string \<Rightarrow> payload option \<Rightarrow> world \<Rightarrow> world" where
  "send_message e now uuid socket messageData w =
     (case map_of (activeConnections w) socket of
        None \<Rightarrow> socket_emit socket ''error'' (error_payload ''User not connected to any room'') w
      | Some info \<Rightarrow>
          (case messageData of
             None \<Rightarrow>
               socket_emit socket ''error'' (error_payload ''Failed to send message'')
                 (console ''Error in send_message:'' w)
           | Some d \<Rightarrow>
               (case map_of d ''content'' of
                  None \<Rightarrow> socket_emit socket ''error'' (error_payload ''Message content cannot be empty'') w
                | Some content \<Rightarrow>
                    if content = [] \<or> length (String_trim e content) = 0
                    then socket_emit socket ''error'' (error_payload ''Message content cannot be empty'') w
                    else
                      (let message = chat_message e now uuid socket info content (message_type d);
                           (published, w1) = publishToRoom e (roomId info) message
                                               (console ''Message from'' w)
                       in if \<not> published
                          then socket_emit socket ''error'' (error_payload ''Failed to send message'') w1
                          else room_emit (Some (roomId info)) ''new_message'' message w1))))"

text \<open>\<open>disconnect\<close>, lines 300-349.\<close>

definition disconnect :: "env \<Rightarrow> nat \<Rightarrow> string \<Rightarrow> string \<Rightarrow> world \<Rightarrow> world" where
  "disconnect e now socket reason w =
     (case map_of (activeConnections w) socket of
        Some info \<Rightarrow>
          (let w1 = console ''User disconnected'' w;
               w2 = w1\<lparr>activeConnections := AList.delete socket (activeConnections w1)\<rparr>;
               w3 = snd (removeConnection socket w2);
               w4 = snd (publishToRoom e (roomId info)
                           (leave_message e now (userId info) (userName info) (roomId info) reason) w3)
           in (case getRoomStats e now (roomId info) w4 of
                 (stats, w5) \<Rightarrow>
                   snd (publishToRoom e (roomId info)
                          (room_info_message e now (roomId info) (userCount stats)) w5)))
      | None \<Rightarrow> console ''Unknown user disconnected'' w)"

section \<open>Notions used in the statements\<close>

text \<open>The effects a handler added to the trace, between the world before and after.\<close>

definition since :: "world \<Rightarrow> world \<Rightarrow> effect list" where
  "since w w' = drop (length (trace w)) (trace w')"

text \<open>The \<^verbatim>\<open>PUBLISH\<close> and \<^verbatim>\<open>SUBSCRIBE\<close> commands among some effects, in order,
  whatever their outcome.\<close>

fun published :: "effect \<Rightarrow> (string \<times> string) list" where
  "published (Redis (PUBLISH channel m) ok) = [(channel, m)]"
| "published x = []"

definition publishes :: "effect list \<Rightarrow> (string \<times> string) list" where
  "publishes xs = concat (map published xs)"

fun subscribed :: "effect \<Rightarrow> string list" where
  "subscribed (Redis (SUBSCRIBE channel) ok) = [channel]"
| "subscribed x = []"

definition subscribes :: "effect list \<Rightarrow> string list" where
  "subscribes xs = concat (map subscribed xs)"

text \<open>The events that reach clients: every \<^verbatim>\<open>socket.emit\<close> and
  \<^verbatim>\<open>io.to(room).emit\<close>; and among them those that deliver a message: an emit to a
  room, or a \<open>new_message\<close> event to one socket.\<close>

fun client_event :: "effect \<Rightarrow> bool" where
  "client_event (SocketEmit s ev p) = True"
| "client_event (RoomEmit room ev p) = True"
| "client_event x = False"

fun local_delivery :: "effect \<Rightarrow> bool" where
  "local_delivery (RoomEmit room ev p) = True"
| "local_delivery (SocketEmit s ev p) = (ev = ''new_message'')"
| "local_delivery x = False"

text \<open>The outcome of the next backend call under a failure script.\<close>

definition outcome :: "bool list \<Rightarrow> bool" where
  "outcome fs = (case fs of [] \<Rightarrow> True | f # gs \<Rightarrow> \<not> f)"

text \<open>The effects of a registry scan: reads, deletions and console lines.\<close>

fun registry_only :: "effect \<Rightarrow> bool" where
  "registry_only (Redis (GET k) ok) = True"
| "registry_only (Redis (DEL k) ok) = True"
| "registry_only (Redis (KEYS p) ok) = True"
| "registry_only (Console s) = True"
| "registry_only x = False"

text \<open>\<open>w'\<close> comes from \<open>w\<close> by such effects, the process state untouched.\<close>

definition scanned :: "world \<Rightarrow> world \<Rightarrow> bool" where
  "scanned w w' =
     (activeConnections w' = activeConnections w \<and> subscribedRooms w' = subscribedRooms w
      \<and> socketRooms w' = socketRooms w \<and> listeners w' = listeners w \<and> channels w' = channels w
      \<and> (\<exists>xs. trace w' = trace w @ xs \<and> list_all registry_only xs))"

subsection \<open>A concrete environment\<close>

text \<open>An environment to run the definitions in: \<^verbatim>\<open>JSON.parse\<close> on the few texts the
  examples use (it throws on every other text here, as it does on the empty text and on
  text that is not JSON), \<^verbatim>\<open>trim\<close> as it is on ASCII texts, \<^verbatim>\<open>SERVER_ID\<close> unset.\<close>

definition entry_alice :: string where
  "entry_alice = ''{\"userId\":\"U1\",\"roomId\":\"R1\",\"userName\":\"Alice\"}''"

definition entry_bob :: string where
  "entry_bob = ''{\"userId\":\"U2\",\"roomId\":\"R1\",\"userName\":\"Bob\"}''"

definition entry_carol :: string where
  "entry_carol = ''{\"userId\":\"U3\",\"roomId\":\"R2\",\"userName\":\"Carol\"}''"

definition entry_torn :: string where
  "entry_torn = ''{\"userId\":\"U4\",\"roo''"

definition entry_dan :: string where
  "entry_dan = ''{\"userId\":{\"a\":1},\"roomId\":\"R1\",\"userName\":\"Dan\"}''"

definition chat_from_beta :: string where
  "chat_from_beta = ''{\"userId\":\"U2\",\"roomId\":\"R1\",\"content\":\"hi\",\"serverId\":\"beta\"}''"

definition chat_from_self :: string where
  "chat_from_self = ''{\"userId\":\"U1\",\"roomId\":\"R1\",\"content\":\"hi\",\"serverId\":\"server-4fzyo\"}''"

definition chat_from_beta_colon :: string where
  "chat_from_beta_colon = ''{\"userId\":\"U2\",\"roomId\":\"a:b\",\"content\":\"hi\",\"serverId\":\"beta\"}''"

definition demo_parse :: "string \<Rightarrow> jval option" where
  "demo_parse = map_of
     [(''{}'', JObj []),
      (''null'', JNull),
      (entry_alice, JObj [(''userId'', JStr ''U1''), (''roomId'', JStr ''R1''), (''userName'', JStr ''Alice'')]),
      (entry_bob, JObj [(''userId'', JStr ''U2''), (''roomId'', JStr ''R1''), (''userName'', JStr ''Bob'')]),
      (entry_carol, JObj [(''userId'', JStr ''U3''), (''roomId'', JStr ''R2''), (''userName'', JStr ''Carol'')]),
      (chat_from_beta, JObj [(''userId'', JStr ''U2''), (''roomId'', JStr ''R1''),
                             (''content'', JStr ''hi''), (''serverId'', JStr ''beta'')]),
      (chat_from_self, JObj [(''userId'', JStr ''U1''), (''roomId'', JStr ''R1''),
                             (''content'', JStr ''hi''), (''serverId'', JStr ''server-4fzyo'')]),
      (chat_from_beta_colon, JObj [(''userId'', JStr ''U2''), (''roomId'', JStr ''a:b''),
                                   (''content'', JStr ''hi''), (''serverId'', JStr ''beta'')]),
      (entry_dan, JObj [(''userId'', JObj [(''a'', JNum 1)]), (''roomId'', JStr ''R1''),
                        (''userName'', JStr ''Dan'')])]"

text \<open>\<^verbatim>\<open>String.prototype.trim\<close> on a text of ASCII characters, where the white space
  and line terminator characters are these six.\<close>

definition is_space :: "char \<Rightarrow> bool" where
  "is_space c = (c \<in> set [CHR '' '', CHR 0x09, CHR 0x0A, CHR 0x0B, CHR 0x0C, CHR 0x0D])"

definition ascii_trim :: "string \<Rightarrow> string" where
  "ascii_trim s = rev (dropWhile is_space (rev (dropWhile is_space s)))"

definition demo_env :: env where
  "demo_env = \<lparr>JSON_parse = demo_parse, JSON_stringify = (\<lambda>v. ''{}''),
                String_trim = ascii_trim,
                toISOString = (\<lambda>t. ''1970-01-01T00:00:00.000Z''),
                env_SERVER_ID = None, random36 = ''0.4fzyo82mvyr''\<rparr>"

definition demo_info :: connectionInfo where
  "demo_info = \<lparr>userId = ''U1'', roomId = ''R1'', userName = ''Alice'', socketId = ''s1'',
                 joinedAt = 100, serverId = ''server-4fzyo''\<rparr>"

definition demo_join :: payload where
  "demo_join = [(''userId'', ''U1''), (''roomId'', ''R1''), (''userName'', ''Alice'')]"

text \<open>The process after socket \<open>s1\<close> joined room \<open>R1\<close>, and the same with the
  backend failing its next call.\<close>

definition demo_world :: world where
  "demo_world = join_room demo_env 100 ''s1'' (Some demo_join) (boot [] [])"

definition demo_world_down :: world where
  "demo_world_down = demo_world\<lparr>failures := [True]\<rparr>"

text \<open>The process after socket \<open>s2\<close> joined the room named \<open>a:b\<close>.\<close>

definition colon_join :: payload where
  "colon_join = [(''userId'', ''U2''), (''roomId'', ''a:b''), (''userName'', ''Bob'')]"

definition colon_world :: world where
  "colon_world = join_room demo_env 100 ''s2'' (Some colon_join) (boot [] [])"

text \<open>A registry: Alice twice (two tabs), a torn write, Bob, and Carol in another room.\<close>

definition demo_registry :: "(string \<times> string \<times> nat) list" where
  "demo_registry =
     [(''connection:c1'', entry_alice, 3600), (''connection:c2'', entry_torn, 3600),
      (''connection:c3'', entry_bob, 3600), (''connection:c4'', entry_alice, 3600),
      (''connection:c5'', entry_carol, 3600)]"


subsection \<open>Room statistics, as the specification words them\<close>

text \<open>The keys a scan visits: the live ones under \<^verbatim>\<open>connection:\<close>, in the order
  \<^verbatim>\<open>KEYS\<close> lists them.\<close>

definition scan_keys :: "nat \<Rightarrow> (string \<times> string \<times> nat) list \<Rightarrow> string list" where
  "scan_keys now reg = [k \<leftarrow> map fst reg. prefix ''connection:'' k \<and> lookup_live now reg k \<noteq> None]"

text \<open>What an entry contributes for a room: its parsed value, when the value parses
  and its \<open>roomId\<close> is the room.\<close>

definition candidate :: "env \<Rightarrow> string \<Rightarrow> string option \<Rightarrow> jval option" where
  "candidate e room r =
     (case r of
        None \<Rightarrow> None
      | Some s \<Rightarrow>
          (case JSON_parse e s of
             None \<Rightarrow> None
           | Some c \<Rightarrow> if same_value (get_prop c ''roomId'') (JStr room) then Some c else None))"

text \<open>The parseable entries whose \<open>roomId\<close> equals the room, in scan order.\<close>

definition room_connections :: "env \<Rightarrow> nat \<Rightarrow> string \<Rightarrow> (string \<times> string \<times> nat) list \<Rightarrow> jval list" where
  "room_connections e now room reg =
     List.map_filter (\<lambda>k. candidate e room (lookup_live now reg k)) (scan_keys now reg)"



subsection \<open>Room statistics, as the Set of the code sees the user ids\<close>

text \<open>The \<^verbatim>\<open>Set\<close> holds the user id of \<open>c\<close> and is asked for that of \<open>d\<close>: primitive
  user ids are found by value, an object or an array never is. What the \<^verbatim>\<open>Set\<close> lets
  through: an entry is dropped when an earlier entry has the same primitive user id.\<close>

definition set_same_user :: "jval \<Rightarrow> jval \<Rightarrow> bool" where
  "set_same_user c d = same_value (get_prop c ''userId'') (get_prop d ''userId'')"

primrec kept_by_set :: "jval list \<Rightarrow> jval list" where
  "kept_by_set [] = []"
| "kept_by_set (c # cs) = c # [d \<leftarrow> kept_by_set cs. \<not> set_same_user c d]"

text \<open>A value on which the body of the inner \<^verbatim>\<open>try\<close> throws: a non-empty text that
  \<^verbatim>\<open>JSON.parse\<close> rejects, or that parses to \<^verbatim>\<open>null\<close>.\<close>

definition torn :: "env \<Rightarrow> string option \<Rightarrow> bool" where
  "torn e r =
     (case r of
        None \<Rightarrow> False
      | Some s \<Rightarrow> s \<noteq> [] \<and> (case JSON_parse e s of None \<Rightarrow> True | Some c \<Rightarrow> nullish c))"

text \<open>One step of the loop on an entry of the room, and the loop on the registry alone
  when every backend call succeeds.\<close>

definition tally_add :: "tally \<Rightarrow> jval \<Rightarrow> tally" where
  "tally_add acc c =
     (case acc of (n, us, ids) \<Rightarrow>
        if has ids (get_prop c ''userId'') then acc
        else (n + 1, us @ [roster_entry c], ids @ [get_prop c ''userId'']))"

fun sweep :: "env \<Rightarrow> nat \<Rightarrow> string \<Rightarrow> string list \<Rightarrow> tally \<Rightarrow> (string \<times> string \<times> nat) list
                \<Rightarrow> tally \<times> (string \<times> string \<times> nat) list" where
  "sweep e now room [] acc reg = (acc, reg)"
| "sweep e now room (key # keys) acc reg =
     (case inspect e room acc (lookup_live now reg key) of
        Some acc' \<Rightarrow> sweep e now room keys acc' reg
      | None \<Rightarrow> sweep e now room keys acc (AList.delete key reg))"

section \<open>Properties\<close>

subsection \<open>storeConnection\<close>

lemma storeConnection_trace:
  "trace (snd (storeConnection e now socket info w)) =
     trace w @ Redis (SETEX (''connection:'' @ socket) 3600 (JSON_stringify e (JObj (stored_record e now info))))
                 (fst (storeConnection e now socket info w))
       # (if fst (storeConnection e now socket info w) then [] else [Console ''Error storing connection:''])"
  by (simp add: storeConnection_def redis_setex_def next_outcome_def emit_def console_def Let_def
      split: list.splits prod.splits)

lemma storeConnection_registry:
  "registry (snd (storeConnection e now socket info w)) =
     (if fst (storeConnection e now socket info w)
      then AList.update (''connection:'' @ socket)
             (JSON_stringify e (JObj (stored_record e now info)), now + 3600) (registry w)
      else registry w)"
  by (simp add: storeConnection_def redis_setex_def next_outcome_def emit_def console_def Let_def
      split: list.splits prod.splits)

lemma storeConnection_ok:
  "fst (storeConnection e now socket info w) = (case failures w of [] \<Rightarrow> True | f # fs \<Rightarrow> \<not> f)"
  by (simp add: storeConnection_def redis_setex_def next_outcome_def emit_def console_def Let_def
      split: list.splits prod.splits)

lemma stored_record_fields:
  "map_of (stored_record e now info) k =
     (if k = ''timestamp'' then Some (JStr (toISOString e now))
      else if k = ''serverId'' then Some (JStr (env_or (env_SERVER_ID e) ''server-1''))
      else map_of info k)"
  by (simp add: stored_record_def AList.update_conv')

text \<open>
  C10. Whatever \<open>info\<close> holds, \<open>storeConnection\<close> issues \<^verbatim>\<open>SETEX\<close> with the text of a
  record whose \<open>serverId\<close> is the environment variable \<^verbatim>\<open>SERVER_ID\<close>, or
  \<^verbatim>\<open>server-1\<close> when the variable is unset (or empty, which \<^verbatim>\<open>||\<close> treats alike), and
  whose \<open>timestamp\<close> is the time of the write; every other field is the one supplied.
  With the variable unset the stored \<open>serverId\<close> is \<^verbatim>\<open>server-1\<close>, while index.js
  stamps its envelopes with \<^verbatim>\<open>server-\<close> followed by five characters of
  \<^verbatim>\<open>Math.random().toString(36)\<close>: the two differ unless those characters are the
  single character \<^verbatim>\<open>1\<close>.
\<close>

theorem storeConnection_overrides_serverId:
  "Redis (SETEX (''connection:'' @ socket) 3600 (JSON_stringify e (JObj (stored_record e now info))))
       (fst (storeConnection e now socket info w))
     \<in> set (since w (snd (storeConnection e now socket info w)))
   \<and> (fst (storeConnection e now socket info w) \<longrightarrow>
        lookup_live now (registry (snd (storeConnection e now socket info w))) (''connection:'' @ socket)
          = Some (JSON_stringify e (JObj (stored_record e now info))))
   \<and> map_of (stored_record e now info) ''serverId''
        = Some (JStr (case env_SERVER_ID e of None \<Rightarrow> ''server-1''
                      | Some s \<Rightarrow> if s = [] then ''server-1'' else s))
   \<and> map_of (stored_record e now info) ''timestamp'' = Some (JStr (toISOString e now))
   \<and> (\<forall>k. k \<noteq> ''serverId'' \<and> k \<noteq> ''timestamp'' \<longrightarrow>
          map_of (stored_record e now info) k = map_of info k)
   \<and> (env_SERVER_ID e = None \<and> substr 2 5 (random36 e) \<noteq> ''1'' \<longrightarrow>
          map_of (stored_record e now info) ''serverId'' = Some (JStr ''server-1'')
          \<and> SERVER_ID e \<noteq> ''server-1'')"
proof -
  have a: "Redis (SETEX (''connection:'' @ socket) 3600 (JSON_stringify e (JObj (stored_record e now info))))
       (fst (storeConnection e now socket info w))
     \<in> set (since w (snd (storeConnection e now socket info w)))"
    by (simp add: since_def storeConnection_trace)
  have b: "fst (storeConnection e now socket info w) \<longrightarrow>
        lookup_live now (registry (snd (storeConnection e now socket info w))) (''connection:'' @ socket)
          = Some (JSON_stringify e (JObj (stored_record e now info)))"
    by (simp add: storeConnection_registry lookup_live_def AList.update_conv')
  have c: "map_of (stored_record e now info) ''serverId''
        = Some (JStr (case env_SERVER_ID e of None \<Rightarrow> ''server-1''
                      | Some s \<Rightarrow> if s = [] then ''server-1'' else s))"
    by (simp add: stored_record_fields env_or_def)
  have d: "env_SERVER_ID e = None \<and> substr 2 5 (random36 e) \<noteq> ''1'' \<longrightarrow>
          map_of (stored_record e now info) ''serverId'' = Some (JStr ''server-1'')
          \<and> SERVER_ID e \<noteq> ''server-1''"
    by (simp add: stored_record_fields env_or_def SERVER_ID_def)
  show ?thesis using a b c d by (simp add: stored_record_fields)
qed

theorem storeConnection_overrides_serverId_witness:
  "env_SERVER_ID demo_env = None \<and> substr 2 5 (random36 demo_env) \<noteq> ''1''
   \<and> map_of (object_of demo_info) ''serverId'' = Some (JStr ''server-4fzyo'')
   \<and> SERVER_ID demo_env = ''server-4fzyo''
   \<and> fst (storeConnection demo_env 100 ''s1'' (object_of demo_info) (boot [] []))
   \<and> map_of (stored_record demo_env 100 (object_of demo_info)) ''serverId'' = Some (JStr ''server-1'')
   \<and> map_of (stored_record demo_env 100 (object_of demo_info)) ''userId'' = Some (JStr ''U1'')
   \<and> SERVER_ID demo_env \<noteq> ''server-1''"
  using storeConnection_overrides_serverId [of "''s1''" demo_env 100 "object_of demo_info" "boot [] []"]
  by (simp add: demo_env_def demo_info_def object_of_def substr_def SERVER_ID_def env_or_def
      storeConnection_ok boot_def setupRedisMessageHandler_def)

subsection \<open>Evaluation on the concrete environment\<close>

lemmas run_defs = join_room_def join_valid_def join_local_def join_announce_def joined_ack_def
  join_message_def room_info_message_def falsy_def storeConnection_def subscribeToRoom_def
  getRoomStats_def publishToRoom_def redis_setex_def redis_subscribe_def redis_keys_def redis_get_def
  redis_del_def redis_publish_def next_outcome_def emit_def console_def socket_emit_def room_emit_def
  socket_join_def boot_def setupRedisMessageHandler_def Let_def lookup_live_def inspect_def
  stored_record_def object_of_def content_preview_ok_def nullish_def same_value_def has_def
  demo_env_def demo_parse_def SERVER_ID_def env_or_def substr_def error_payload_def
  entry_alice_def entry_bob_def entry_carol_def entry_torn_def chat_from_beta_def
  chat_from_self_def chat_from_beta_colon_def entry_dan_def

lemma demo_world_eq:
  "demo_world =
    \<lparr>activeConnections = [(''s1'', demo_info)],
     subscribedRooms = [''R1''], socketRooms = [(''s1'', ''R1'')],
     listeners = [RelayListener], channels = [''room:R1''],
     registry = [(''connection:s1'', ''{}'', 3700)], failures = [],
     trace =
       [Console ''User joining room'',
        Redis (SETEX ''connection:s1'' 3600 ''{}'') True,
        Redis (SUBSCRIBE ''room:R1'') True, Console ''Subscribed to'',
        SocketEmit ''s1'' ''joined_room''
          (JObj [(''roomId'', JStr ''R1''), (''message'', JStr ''Successfully joined R1''),
                 (''serverId'', JStr ''server-4fzyo''), (''timestamp'', JDate 100)]),
        Redis (KEYS ''connection:*'') True,
        Redis (GET ''connection:s1'') True,
        Redis (PUBLISH ''room:R1'' ''{}'') True, Console ''Published to'',
        Redis (PUBLISH ''room:R1'' ''{}'') True, Console ''Published to'']\<rparr>"
  by (simp add: demo_world_def run_defs demo_join_def demo_info_def)

lemma trim_hello: "String_trim demo_env ''hello'' = ''hello''"
  by (simp add: demo_env_def ascii_trim_def is_space_def)

subsection \<open>storeConnection: the expiry\<close>

lemma redis_keys_reply:
  "redis_keys t p w = (Some ks, w') \<Longrightarrow>
     ks = [k \<leftarrow> map fst (registry w). prefix p k \<and> lookup_live t (registry w) k \<noteq> None]"
  by (auto simp: redis_keys_def next_outcome_def emit_def Let_def split: list.splits if_splits)

lemma redis_get_reply:
  "redis_get t key w = (Some r, w') \<Longrightarrow> r = lookup_live t (registry w) key"
  by (auto simp: redis_get_def next_outcome_def emit_def Let_def split: list.splits if_splits)

text \<open>
  C8. The only command \<open>storeConnection\<close> issues is \<^verbatim>\<open>SETEX\<close> with a time to live of
  3600 seconds. When it succeeds the entry expires at the time of the write plus 3600: as
  long as the entry is neither removed nor overwritten, \<^verbatim>\<open>KEYS\<close> lists the key and
  \<^verbatim>\<open>GET\<close> returns its value exactly at the times before that instant, and no longer
  from it on.
\<close>

theorem storeConnection_expires_after_one_hour:
  "since w (snd (storeConnection e now socket info w))
     = Redis (SETEX (''connection:'' @ socket) 3600 (JSON_stringify e (JObj (stored_record e now info))))
         (fst (storeConnection e now socket info w))
       # (if fst (storeConnection e now socket info w) then [] else [Console ''Error storing connection:''])
   \<and> (fst (storeConnection e now socket info w) \<longrightarrow>
        map_of (registry (snd (storeConnection e now socket info w))) (''connection:'' @ socket)
          = Some (JSON_stringify e (JObj (stored_record e now info)), now + 3600))
   \<and> (\<forall>t w2 w3 ks.
          map_of (registry w2) (''connection:'' @ socket)
            = Some (JSON_stringify e (JObj (stored_record e now info)), now + 3600)
          \<and> redis_keys t ''connection:'' w2 = (Some ks, w3)
          \<longrightarrow> ((''connection:'' @ socket) \<in> set ks) = (t < now + 3600))
   \<and> (\<forall>t w2 w3 r.
          map_of (registry w2) (''connection:'' @ socket)
            = Some (JSON_stringify e (JObj (stored_record e now info)), now + 3600)
          \<and> redis_get t (''connection:'' @ socket) w2 = (Some r, w3)
          \<longrightarrow> r = (if t < now + 3600 then Some (JSON_stringify e (JObj (stored_record e now info)))
                   else None))"
proof (intro conjI impI allI)
  show "since w (snd (storeConnection e now socket info w))
     = Redis (SETEX (''connection:'' @ socket) 3600 (JSON_stringify e (JObj (stored_record e now info))))
         (fst (storeConnection e now socket info w))
       # (if fst (storeConnection e now socket info w) then [] else [Console ''Error storing connection:''])"
    by (simp add: since_def storeConnection_trace)
next
  assume ok: "fst (storeConnection e now socket info w)"
  then show "map_of (registry (snd (storeConnection e now socket info w))) (''connection:'' @ socket)
          = Some (JSON_stringify e (JObj (stored_record e now info)), now + 3600)"
    by (simp add: storeConnection_registry AList.update_conv')
next
  fix t w2 w3 ks
  let ?v = "JSON_stringify e (JObj (stored_record e now info))"
  let ?key = "''connection:'' @ socket"
  assume h: "map_of (registry w2) ?key = Some (?v, now + 3600)
               \<and> redis_keys t ''connection:'' w2 = (Some ks, w3)"
  have live: "lookup_live t (registry w2) ?key = (if t < now + 3600 then Some ?v else None)"
    using h by (simp add: lookup_live_def)
  have dom: "?key \<in> set (map fst (registry w2))"
    using h by (metis map_of_eq_None_iff option.distinct(1) set_map)
  have "ks = [k \<leftarrow> map fst (registry w2). prefix ''connection:'' k \<and> lookup_live t (registry w2) k \<noteq> None]"
    using h redis_keys_reply [of t "''connection:''" w2 ks w3] by simp
  then show "(?key \<in> set ks) = (t < now + 3600)"
    using dom live by auto
next
  fix t w2 w3 r
  let ?v = "JSON_stringify e (JObj (stored_record e now info))"
  let ?key = "''connection:'' @ socket"
  assume h: "map_of (registry w2) ?key = Some (?v, now + 3600)
               \<and> redis_get t ?key w2 = (Some r, w3)"
  have live: "lookup_live t (registry w2) ?key = (if t < now + 3600 then Some ?v else None)"
    using h by (simp add: lookup_live_def)
  have "r = lookup_live t (registry w2) ?key"
    using h redis_get_reply [of t ?key w2 r w3] by simp
  then show "r = (if t < now + 3600 then Some ?v else None)"
    using live by simp
qed

theorem storeConnection_expires_after_one_hour_witness:
  "fst (storeConnection demo_env 100 ''s1'' (object_of demo_info) (boot [] []))
   \<and> map_of (registry (snd (storeConnection demo_env 100 ''s1'' (object_of demo_info) (boot [] []))))
        ''connection:s1'' = Some (''{}'', 3700)
   \<and> fst (redis_keys 3699 ''connection:''
            (snd (storeConnection demo_env 100 ''s1'' (object_of demo_info) (boot [] []))))
        = Some [''connection:s1'']
   \<and> fst (redis_keys 3700 ''connection:''
            (snd (storeConnection demo_env 100 ''s1'' (object_of demo_info) (boot [] []))))
        = Some []"
  using storeConnection_expires_after_one_hour [of "boot [] []" demo_env 100 "''s1''" "object_of demo_info"]
  by (simp add: run_defs)

subsection \<open>send_message and disconnect\<close>

lemma publishToRoom_ok:
  "fst (publishToRoom e room m w) =
     ((case failures w of [] \<Rightarrow> True | f # fs \<Rightarrow> \<not> f) \<and> content_preview_ok m)"
  by (simp add: publishToRoom_def redis_publish_def next_outcome_def emit_def console_def Let_def
      split: list.splits prod.splits)

lemma publishToRoom_trace:
  "trace (snd (publishToRoom e room m w)) =
     trace w @ [Redis (PUBLISH (''room:'' @ room) (JSON_stringify e m))
                  (case failures w of [] \<Rightarrow> True | f # fs \<Rightarrow> \<not> f),
                Console (if fst (publishToRoom e room m w) then ''Published to''
                         else ''Error publishing message:'')]"
  by (simp add: publishToRoom_def redis_publish_def next_outcome_def emit_def console_def Let_def
      split: list.splits prod.splits)

lemma chat_message_preview_ok [simp]:
  "content_preview_ok (chat_message e now uuid socket info content type)"
  by (simp add: content_preview_ok_def chat_message_def nullish_def)

lemma console_simps [simp]:
  "trace (console s w) = trace w @ [Console s]"
  "failures (console s w) = failures w"
  "registry (console s w) = registry w"
  "activeConnections (console s w) = activeConnections w"
  by (simp_all add: console_def emit_def)

lemma send_message_trace:
  assumes "map_of (activeConnections w) socket = Some info"
      and "map_of d ''content'' = Some content" and "content \<noteq> []"
      and "String_trim e content \<noteq> []"
  shows "since w (send_message e now uuid socket (Some d) w) =
           [Console ''Message from'',
            Redis (PUBLISH (''room:'' @ roomId info)
                     (JSON_stringify e (chat_message e now uuid socket info content (message_type d))))
                  (case failures w of [] \<Rightarrow> True | f # fs \<Rightarrow> \<not> f)]
           @ (if (case failures w of [] \<Rightarrow> True | f # fs \<Rightarrow> \<not> f)
              then [Console ''Published to'',
                    RoomEmit (Some (roomId info)) ''new_message''
                      (chat_message e now uuid socket info content (message_type d))]
              else [Console ''Error publishing message:'',
                    SocketEmit socket ''error'' (error_payload ''Failed to send message'')])"
proof -
  obtain ok w1 where p: "publishToRoom e (roomId info)
      (chat_message e now uuid socket info content (message_type d)) (console ''Message from'' w) = (ok, w1)"
    by (cases "publishToRoom e (roomId info)
      (chat_message e now uuid socket info content (message_type d)) (console ''Message from'' w)")
  have ok: "ok = (case failures w of [] \<Rightarrow> True | f # fs \<Rightarrow> \<not> f)"
    using publishToRoom_ok [of e "roomId info" "chat_message e now uuid socket info content (message_type d)" "console ''Message from'' w"] p
    by simp
  have tr: "trace w1 = trace w @ [Console ''Message from'',
       Redis (PUBLISH (''room:'' @ roomId info)
                     (JSON_stringify e (chat_message e now uuid socket info content (message_type d)))) ok,
       Console (if ok then ''Published to'' else ''Error publishing message:'')]"
    using publishToRoom_trace [of e "roomId info" "chat_message e now uuid socket info content (message_type d)" "console ''Message from'' w"] p ok
    by simp
  show ?thesis
    using assms p tr ok
    by (simp add: send_message_def since_def socket_emit_def room_emit_def emit_def)
qed

text \<open>The requests \<open>send_message\<close> turns down: one error event to the sender, after at
  most a console line.\<close>

lemma send_message_rejected:
  assumes "map_of (activeConnections w) socket = None \<or> md = None
     \<or> (\<exists>d. md = Some d \<and> (map_of d ''content'' = None
            \<or> (\<exists>c. map_of d ''content'' = Some c \<and> (c = [] \<or> String_trim e c = []))))"
  shows "\<exists>m. since w (send_message e now uuid socket md w) = [SocketEmit socket ''error'' m]
            \<or> since w (send_message e now uuid socket md w)
                 = [Console ''Error in send_message:'', SocketEmit socket ''error'' m]"
  using assms
  by (auto simp: send_message_def since_def socket_emit_def emit_def console_def split: option.splits)

lemma delivery_after_publish:
  assumes "xs = [Console a, Redis (PUBLISH channel m) ok, Console b, x]"
      and "local_delivery x \<longrightarrow> ok"
  shows "\<forall>i<length xs. local_delivery (xs ! i) \<longrightarrow> (\<exists>ch m. Redis (PUBLISH ch m) True \<in> set (take i xs))"
proof (intro allI impI)
  fix i
  assume i: "i < length xs" and l: "local_delivery (xs ! i)"
  from i assms(1) have "i = 0 \<or> i = 1 \<or> i = 2 \<or> i = 3" by auto
  then show "\<exists>ch m. Redis (PUBLISH ch m) True \<in> set (take i xs)"
  proof (elim disjE)
    assume "i = 0" with l assms(1) show ?thesis by simp
  next
    assume "i = 1" with l assms(1) show ?thesis by simp
  next
    assume "i = 2" with l assms(1) show ?thesis by simp
  next
    assume i3: "i = 3"
    with l assms have "ok" by simp
    moreover have "take i xs = [Console a, Redis (PUBLISH channel m) ok, Console b]"
      using i3 assms(1) by (simp add: numeral_3_eq_3)
    ultimately show ?thesis by auto
  qed
qed

text \<open>
  C3. When a connected client sends a message with content and \<open>publishToRoom\<close> reports
  failure, the only event that reaches any client is the error event
  \<^verbatim>\<open>Failed to send message\<close> to the sender: nothing is emitted to a room, and no
  \<open>new_message\<close> event to a socket. And whatever \<open>send_message\<close> is called with, an
  effect that delivers a message to local clients comes after a \<^verbatim>\<open>PUBLISH\<close> that
  succeeded.
\<close>

theorem failed_publish_blocks_local_echo:
  "(map_of (activeConnections w) socket = Some info \<and> map_of d ''content'' = Some content
      \<and> content \<noteq> [] \<and> String_trim e content \<noteq> []
      \<and> \<not> fst (publishToRoom e (roomId info) (chat_message e now uuid socket info content (message_type d))
                 (console ''Message from'' w))
    \<longrightarrow> filter client_event (since w (send_message e now uuid socket (Some d) w))
          = [SocketEmit socket ''error'' (error_payload ''Failed to send message'')]
        \<and> filter local_delivery (since w (send_message e now uuid socket (Some d) w)) = [])
   \<and> (\<forall>i < length (since w (send_message e now uuid socket md w)).
         local_delivery (since w (send_message e now uuid socket md w) ! i) \<longrightarrow>
         (\<exists>ch m. Redis (PUBLISH ch m) True
                    \<in> set (take i (since w (send_message e now uuid socket md w)))))"
proof (intro conjI impI)
  assume a: "map_of (activeConnections w) socket = Some info \<and> map_of d ''content'' = Some content
      \<and> content \<noteq> [] \<and> String_trim e content \<noteq> []
      \<and> \<not> fst (publishToRoom e (roomId info) (chat_message e now uuid socket info content (message_type d))
                 (console ''Message from'' w))"
  then have f: "\<not> (case failures w of [] \<Rightarrow> True | f # fs \<Rightarrow> \<not> f)"
    by (simp add: publishToRoom_ok)
  from a f show "filter client_event (since w (send_message e now uuid socket (Some d) w))
          = [SocketEmit socket ''error'' (error_payload ''Failed to send message'')]"
    by (simp add: send_message_trace)
  from a f show "filter local_delivery (since w (send_message e now uuid socket (Some d) w)) = []"
    by (simp add: send_message_trace)
next
  let ?xs = "since w (send_message e now uuid socket md w)"
  show "\<forall>i < length ?xs. local_delivery (?xs ! i) \<longrightarrow>
          (\<exists>ch m. Redis (PUBLISH ch m) True \<in> set (take i ?xs))"
  proof (cases "map_of (activeConnections w) socket = None \<or> md = None
     \<or> (\<exists>d. md = Some d \<and> (map_of d ''content'' = None
            \<or> (\<exists>c. map_of d ''content'' = Some c \<and> (c = [] \<or> String_trim e c = []))))")
    case True
    from send_message_rejected [OF True, of now uuid] obtain m where
      "?xs = [SocketEmit socket ''error'' m] \<or> ?xs = [Console ''Error in send_message:'', SocketEmit socket ''error'' m]"
      by blast
    then show ?thesis
      by (auto simp: less_Suc_eq nth_Cons')
  next
    case False
    then obtain info d c where h: "map_of (activeConnections w) socket = Some info" "md = Some d"
        "map_of d ''content'' = Some c" "c \<noteq> []" "String_trim e c \<noteq> []"
      by auto
    let ?m = "chat_message e now uuid socket info c (message_type d)"
    let ?ok = "case failures w of [] \<Rightarrow> True | f # fs \<Rightarrow> \<not> f"
    have t: "?xs =
           [Console ''Message from'',
            Redis (PUBLISH (''room:'' @ roomId info) (JSON_stringify e ?m)) ?ok,
            Console (if ?ok then ''Published to'' else ''Error publishing message:''),
            (if ?ok then RoomEmit (Some (roomId info)) ''new_message'' ?m
             else SocketEmit socket ''error'' (error_payload ''Failed to send message''))]"
      using send_message_trace [OF h(1) h(3) h(4) h(5)] h(2) by simp
    show ?thesis
      by (rule delivery_after_publish [OF t]) simp
  qed
qed

theorem failed_publish_blocks_local_echo_witness:
  "map_of (activeConnections demo_world_down) ''s1'' = Some demo_info
   \<and> map_of [(''content'', ''hello'')] ''content'' = Some ''hello''
   \<and> ''hello'' \<noteq> [] \<and> String_trim demo_env ''hello'' \<noteq> []
   \<and> \<not> fst (publishToRoom demo_env (roomId demo_info)
              (chat_message demo_env 101 ''id-1'' ''s1'' demo_info ''hello'' (message_type [(''content'', ''hello'')]))
              (console ''Message from'' demo_world_down))
   \<and> filter client_event
        (since demo_world_down
           (send_message demo_env 101 ''id-1'' ''s1'' (Some [(''content'', ''hello'')]) demo_world_down))
      = [SocketEmit ''s1'' ''error'' (error_payload ''Failed to send message'')]
   \<and> filter local_delivery
        (since demo_world_down
           (send_message demo_env 101 ''id-1'' ''s1'' (Some [(''content'', ''hello'')]) demo_world_down))
      = []"
  using failed_publish_blocks_local_echo
          [of demo_world_down "''s1''" demo_info "[(''content'', ''hello'')]" "''hello''" demo_env 101 "''id-1''"]
  by (simp add: demo_world_down_def demo_world_eq trim_hello publishToRoom_ok)

text \<open>
  C4, as stated, fails: with the backend down, the message of a connected client is not
  emitted to its room; the handler returns after the error event.
\<close>

theorem failed_publish_no_local_echo:
  "since demo_world_down
     (send_message demo_env 101 ''id-1'' ''s1'' (Some [(''content'', ''hello'')]) demo_world_down)
   = [Console ''Message from'', Redis (PUBLISH ''room:R1'' ''{}'') False,
      Console ''Error publishing message:'',
      SocketEmit ''s1'' ''error'' (error_payload ''Failed to send message'')]"
proof -
  have "map_of (activeConnections demo_world_down) ''s1'' = Some demo_info"
    by (simp add: demo_world_down_def demo_world_eq)
  from send_message_trace [OF this, of "[(''content'', ''hello'')]" "''hello''" demo_env 101 "''id-1''"]
  show ?thesis
    by (simp add: trim_hello demo_world_down_def demo_world_eq demo_info_def)
       (simp add: demo_env_def)
qed

text \<open>
  C4, amended. For a message from a connected client whose content is not empty after
  \<^verbatim>\<open>trim()\<close>, the emit to the room depends on the result of the publish: after a
  successful publish the message is emitted to the room; after a failed one the failure
  is reported to the sender and nothing is emitted to the room.
\<close>

theorem local_echo_follows_publish_result:
  "map_of (activeConnections w) socket = Some info \<and> map_of d ''content'' = Some content
      \<and> content \<noteq> [] \<and> String_trim e content \<noteq> [] \<longrightarrow>
   since w (send_message e now uuid socket (Some d) w) =
     (if fst (publishToRoom e (roomId info) (chat_message e now uuid socket info content (message_type d))
                (console ''Message from'' w))
      then [Console ''Message from'',
            Redis (PUBLISH (''room:'' @ roomId info)
                     (JSON_stringify e (chat_message e now uuid socket info content (message_type d)))) True,
            Console ''Published to'',
            RoomEmit (Some (roomId info)) ''new_message''
              (chat_message e now uuid socket info content (message_type d))]
      else [Console ''Message from'',
            Redis (PUBLISH (''room:'' @ roomId info)
                     (JSON_stringify e (chat_message e now uuid socket info content (message_type d)))) False,
            Console ''Error publishing message:'',
            SocketEmit socket ''error'' (error_payload ''Failed to send message'')])"
  by (simp add: send_message_trace publishToRoom_ok)

theorem local_echo_follows_publish_result_witness:
  "map_of (activeConnections demo_world) ''s1'' = Some demo_info
   \<and> map_of [(''content'', ''hello'')] ''content'' = Some ''hello''
   \<and> ''hello'' \<noteq> [] \<and> String_trim demo_env ''hello'' \<noteq> []
   \<and> since demo_world
        (send_message demo_env 101 ''id-1'' ''s1'' (Some [(''content'', ''hello'')]) demo_world)
      = [Console ''Message from'', Redis (PUBLISH ''room:R1'' ''{}'') True, Console ''Published to'',
         RoomEmit (Some ''R1'') ''new_message''
           (chat_message demo_env 101 ''id-1'' ''s1'' demo_info ''hello'' ''text'')]"
  using local_echo_follows_publish_result
          [of demo_world "''s1''" demo_info "[(''content'', ''hello'')]" "''hello''" demo_env 101 "''id-1''"]
  by (simp add: demo_world_eq trim_hello publishToRoom_ok message_type_def demo_info_def)
     (simp add: demo_env_def)

text \<open>
  C9, as stated, fails for \<open>send_message\<close>: a socket with no local record gets an error
  event.
\<close>

theorem unknown_sender_gets_error:
  "since (boot [] []) (send_message demo_env 100 ''id-1'' ''ghost'' (Some [(''content'', ''hello'')]) (boot [] []))
     = [SocketEmit ''ghost'' ''error'' (error_payload ''User not connected to any room'')]"
  by (simp add: send_message_def boot_def setupRedisMessageHandler_def since_def socket_emit_def emit_def)

text \<open>
  C9, amended. For a socket with no local record, \<open>disconnect\<close> only writes a log line
  and \<open>send_message\<close> only emits the error event \<^verbatim>\<open>User not connected to any room\<close>
  to that socket: no local or registry state changes and no Redis command is issued.
\<close>

theorem unknown_connection_handling:
  "map_of (activeConnections w) socket = None \<longrightarrow>
     disconnect e now socket reason w = w\<lparr>trace := trace w @ [Console ''Unknown user disconnected'']\<rparr>
     \<and> send_message e now uuid socket md w =
         w\<lparr>trace := trace w @ [SocketEmit socket ''error'' (error_payload ''User not connected to any room'')]\<rparr>"
  by (simp add: disconnect_def send_message_def console_def socket_emit_def emit_def)

theorem unknown_connection_handling_witness:
  "map_of (activeConnections (boot [] [])) ''ghost'' = None
   \<and> disconnect demo_env 100 ''ghost'' ''transport close'' (boot [] [])
       = (boot [] [])\<lparr>trace := [Console ''Unknown user disconnected'']\<rparr>
   \<and> send_message demo_env 100 ''id-1'' ''ghost'' (Some [(''content'', ''hello'')]) (boot [] [])
       = (boot [] [])\<lparr>trace := [SocketEmit ''ghost'' ''error''
                                    (error_payload ''User not connected to any room'')]\<rparr>"
  using unknown_connection_handling
          [of "boot [] []" "''ghost''" demo_env 100 "''transport close''" "''id-1''"
              "Some [(''content'', ''hello'')]"]
  by (simp add: boot_def setupRedisMessageHandler_def)

subsection \<open>The relay listener\<close>

lemma split_on_nonempty: "split_on c s \<noteq> []"
  by (induction s) (auto split: list.splits)

lemma hd_split_on: "hd (split_on c s) = takeWhile (\<lambda>x. x \<noteq> c) s"
  by (induction s) (auto simp: split_on_nonempty split: list.splits)

lemma split_on_append: "c \<notin> set p \<Longrightarrow> split_on c (p @ c # r) = p # split_on c r"
  by (induction p) auto

lemma room_of_channel:
  "second (split_on CHR '':'' (''room:'' @ room)) = Some (takeWhile (\<lambda>x. x \<noteq> CHR '':'') room)"
proof -
  have "split_on CHR '':'' (''room:'' @ room) = ''room'' # split_on CHR '':'' room"
    using split_on_append [of "CHR '':''" "''room''" room] by simp
  then show ?thesis
    using split_on_nonempty [of "CHR '':''" room] hd_split_on [of "CHR '':''" room]
    by (cases "split_on CHR '':'' room") auto
qed

lemma relay_listener_own:
  "JSON_parse e m = Some data \<Longrightarrow> \<not> nullish data \<Longrightarrow> get_prop data ''serverId'' = JStr (SERVER_ID e)
   \<Longrightarrow> relay_listener e channel m w = w"
  by (simp add: relay_listener_def same_value_def)

lemma relay_listener_foreign:
  assumes "JSON_parse e m = Some data" "\<not> nullish data" "get_prop data ''serverId'' \<noteq> JStr (SERVER_ID e)"
  shows "\<exists>c ev p. since w (relay_listener e (''room:'' @ room) m w)
           = [Console ''Received from'', Console c,
              RoomEmit (Some (takeWhile (\<lambda>x. x \<noteq> CHR '':'') room)) ev p]"
  using assms room_of_channel [of room]
  by (simp add: relay_listener_def same_value_def relay_def since_def room_emit_def
      console_def emit_def Let_def del: split_on.simps)

lemma own_envelope_discarded:
  assumes "listeners w = [RelayListener]"
      and "JSON_parse e m = Some data" "\<not> nullish data" "get_prop data ''serverId'' = JStr (SERVER_ID e)"
  shows "receive e channel m w = w"
  using assms by (simp add: receive_def relay_listener_own)

lemma foreign_envelope_relayed_once:
  assumes "listeners w = [RelayListener]" "''room:'' @ room \<in> set (channels w)"
      and "JSON_parse e m = Some data" "\<not> nullish data" "get_prop data ''serverId'' \<noteq> JStr (SERVER_ID e)"
      and "CHR '':'' \<notin> set room"
  shows "\<exists>c ev p. since w (receive e (''room:'' @ room) m w)
           = [Console ''Received from'', Console c, RoomEmit (Some room) ev p]"
proof -
  have tw: "takeWhile (\<lambda>x. x \<noteq> CHR '':'') room = room"
    using assms(6) by auto
  have r: "receive e (''room:'' @ room) m w = relay_listener e (''room:'' @ room) m w"
    using assms(1,2) by (simp add: receive_def del: split_on.simps)
  show ?thesis
    unfolding r using relay_listener_foreign [OF assms(3,4,5), of w room] unfolding tw .
qed

lemma colon_world_eq:
  "colon_world =
    \<lparr>activeConnections =
       [(''s2'', \<lparr>userId = ''U2'', roomId = ''a:b'', userName = ''Bob'',
                  socketId = ''s2'', joinedAt = 100, serverId = ''server-4fzyo''\<rparr>)],
     subscribedRooms = [''a:b''], socketRooms = [(''s2'', ''a:b'')],
     listeners = [RelayListener], channels = [''room:a:b''],
     registry = [(''connection:s2'', ''{}'', 3700)], failures = [],
     trace =
       [Console ''User joining room'',
        Redis (SETEX ''connection:s2'' 3600 ''{}'') True,
        Redis (SUBSCRIBE ''room:a:b'') True, Console ''Subscribed to'',
        SocketEmit ''s2'' ''joined_room''
          (JObj [(''roomId'', JStr ''a:b''), (''message'', JStr ''Successfully joined a:b''),
                 (''serverId'', JStr ''server-4fzyo''), (''timestamp'', JDate 100)]),
        Redis (KEYS ''connection:*'') True,
        Redis (GET ''connection:s2'') True,
        Redis (PUBLISH ''room:a:b'' ''{}'') True, Console ''Published to'',
        Redis (PUBLISH ''room:a:b'' ''{}'') True, Console ''Published to'']\<rparr>"
  by (simp add: colon_world_def colon_join_def run_defs)

text \<open>
  C1. An envelope whose \<open>serverId\<close> is the receiving server's own is dropped
  (\<open>own_envelope_discarded\<close>), and any other envelope is emitted exactly once, to the room
  whose name is the second \<^verbatim>\<open>:\<close>-separated piece of the channel name: the room itself
  when its name has no colon (\<open>foreign_envelope_relayed_once\<close>), and otherwise its name cut
  at the first colon (\<open>relay_listener_foreign\<close>). So here, where socket \<open>s2\<close> joined the
  room \<open>a:b\<close> and a message of server \<open>beta\<close> for that room arrives on the channel
  \<open>room:a:b\<close>, the message is emitted to the room \<open>a\<close>, which has no socket, and the
  socket in \<open>a:b\<close> gets nothing.
\<close>

theorem relay_misroutes_room_with_colon:
  "since colon_world (receive demo_env ''room:a:b'' chat_from_beta_colon colon_world)
     = [Console ''Received from'', Console ''Relaying message from'',
        RoomEmit (Some ''a'') ''new_message''
          (JObj [(''userId'', JStr ''U2''), (''roomId'', JStr ''a:b''),
                 (''content'', JStr ''hi''), (''serverId'', JStr ''beta'')])]
   \<and> recipients colon_world (Some ''a'') = []
   \<and> recipients colon_world (Some ''a:b'') = [''s2'']"
  by (simp add: colon_world_eq receive_def relay_listener_def relay_def since_def recipients_def
      room_emit_def console_def emit_def same_value_def nullish_def demo_env_def demo_parse_def
      SERVER_ID_def env_or_def substr_def Let_def
      entry_alice_def entry_bob_def entry_carol_def chat_from_beta_def chat_from_self_def
      chat_from_beta_colon_def entry_dan_def)


subsection \<open>join_room\<close>

lemma scanned_refl: "scanned w w"
  by (simp add: scanned_def)

lemma scanned_trans: "scanned a b \<Longrightarrow> scanned b c \<Longrightarrow> scanned a c"
  by (auto simp: scanned_def)

lemma scanned_console: "scanned w (console s w)"
  by (simp add: scanned_def console_def emit_def)

lemma scanned_get: "scanned w (snd (redis_get now key w))"
  by (simp add: scanned_def redis_get_def next_outcome_def emit_def Let_def split: list.splits prod.splits)

lemma scanned_del: "scanned w (snd (redis_del key w))"
  by (simp add: scanned_def redis_del_def next_outcome_def emit_def Let_def split: list.splits prod.splits)

lemma scanned_keys: "scanned w (snd (redis_keys now p w))"
  by (simp add: scanned_def redis_keys_def next_outcome_def emit_def Let_def split: list.splits prod.splits)

lemma scanned_scan: "scanned w (snd (scan e now room keys acc w))"
proof (induction keys arbitrary: acc w)
  case Nil
  show ?case by (simp add: scanned_refl)
next
  case (Cons key keys)
  obtain reply w1 where g: "redis_get now key w = (reply, w1)"
    by (cases "redis_get now key w")
  have s1: "scanned w w1" using scanned_get [of w now key] g by simp
  show ?case
  proof (cases "case reply of None \<Rightarrow> None | Some connectionData \<Rightarrow> inspect e room acc connectionData")
    case (Some acc')
    then show ?thesis
      using g s1 Cons.IH [of w1 acc'] by (auto intro: scanned_trans)
  next
    case None
    obtain ok w2 where d: "redis_del key (console ''Failed to parse connection data for key:'' w1) = (ok, w2)"
      by (cases "redis_del key (console ''Failed to parse connection data for key:'' w1)")
    have s2: "scanned w w2"
      using scanned_del [of "console ''Failed to parse connection data for key:'' w1" key] d
        scanned_console [of w1 "''Failed to parse connection data for key:''"] s1
      by (auto intro: scanned_trans)
    show ?thesis
      using None g d s2 Cons.IH [of w2 acc] by (auto intro: scanned_trans)
  qed
qed

lemma scanned_getRoomStats: "scanned w (snd (getRoomStats e now room w))"
proof -
  obtain reply w1 where k: "redis_keys now ''connection:'' w = (reply, w1)"
    by (cases "redis_keys now ''connection:'' w")
  have s1: "scanned w w1" using scanned_keys [of w now "''connection:''"] k by simp
  show ?thesis
  proof (cases reply)
    case None
    then show ?thesis
      using k s1 scanned_console [of w1] by (auto simp: getRoomStats_def intro: scanned_trans)
  next
    case (Some keys)
    obtain r w2 where sc: "scan e now room keys (0, [], []) w1 = (r, w2)"
      by (cases "scan e now room keys (0, [], []) w1")
    have s2: "scanned w w2"
      using scanned_scan [of w1 e now room keys "(0, [], [])"] sc s1 by (auto intro: scanned_trans)
    show ?thesis
      using Some k sc s2 scanned_console [of w2]
      by (auto simp: getRoomStats_def split: option.splits intro: scanned_trans)
  qed
qed

lemma registry_only_quiet:
  "list_all registry_only xs \<Longrightarrow>
     publishes xs = [] \<and> subscribes xs = []
     \<and> (\<forall>s ev p. SocketEmit s ev p \<notin> set xs) \<and> (\<forall>r ev p. RoomEmit r ev p \<notin> set xs)"
proof (induction xs)
  case Nil
  show ?case by (simp add: publishes_def subscribes_def)
next
  case (Cons x xs)
  then show ?case
    by (cases x rule: registry_only.cases) (auto simp: publishes_def subscribes_def)
qed


lemma publishes_simps [simp]:
  "publishes [] = []"
  "publishes (x # xs) = published x @ publishes xs"
  "publishes (xs @ ys) = publishes xs @ publishes ys"
  by (simp_all add: publishes_def)

lemma subscribes_simps [simp]:
  "subscribes [] = []"
  "subscribes (x # xs) = subscribed x @ subscribes xs"
  "subscribes (xs @ ys) = subscribes xs @ subscribes ys"
  by (simp_all add: subscribes_def)

lemma storeConnection_result:
  "fst (storeConnection e now socket info w) = outcome (failures w)"
  "failures (snd (storeConnection e now socket info w)) = tl (failures w)"
  "subscribedRooms (snd (storeConnection e now socket info w)) = subscribedRooms w"
  "listeners (snd (storeConnection e now socket info w)) = listeners w"
  "socketRooms (snd (storeConnection e now socket info w)) = socketRooms w"
  "activeConnections (snd (storeConnection e now socket info w)) = activeConnections w"
  by (simp_all add: storeConnection_def redis_setex_def next_outcome_def emit_def console_def
      outcome_def Let_def split: list.splits)

lemma subscribeToRoom_trace:
  "trace (snd (subscribeToRoom room w)) =
     trace w @ [Redis (SUBSCRIBE (''room:'' @ room)) (outcome (failures w)),
                Console (if outcome (failures w) then ''Subscribed to''
                         else ''Error subscribing to room:'')]"
  by (simp add: subscribeToRoom_def redis_subscribe_def next_outcome_def emit_def console_def
      outcome_def Let_def split: list.splits)


lemma socket_join_fields [simp]:
  "trace (socket_join s r w) = trace w"
  "subscribedRooms (socket_join s r w) = subscribedRooms w"
  "listeners (socket_join s r w) = listeners w"
  "failures (socket_join s r w) = failures w"
  by (simp_all add: socket_join_def)

lemma socket_emit_fields [simp]:
  "trace (socket_emit s ev p w) = trace w @ [SocketEmit s ev p]"
  "subscribedRooms (socket_emit s ev p w) = subscribedRooms w"
  "listeners (socket_emit s ev p w) = listeners w"
  by (simp_all add: socket_emit_def emit_def)

lemma console_fields [simp]:
  "subscribedRooms (console s w) = subscribedRooms w"
  "listeners (console s w) = listeners w"
  by (simp_all add: console_def emit_def)

lemma join_local_trace:
  "trace (join_local e now socket uid room uname w) =
     trace w @
     (Console ''User joining room''
      # Redis (SETEX (''connection:'' @ socket) 3600
                (JSON_stringify e (JObj (stored_record e now
                   (object_of \<lparr>userId = uid, roomId = room, userName = uname, socketId = socket,
                               joinedAt = now, serverId = SERVER_ID e\<rparr>)))))
              (outcome (failures w))
      # (if outcome (failures w) then [] else [Console ''Error storing connection:''])
      @ (if room \<in> set (subscribedRooms w) then []
         else [Redis (SUBSCRIBE (''room:'' @ room)) (outcome (tl (failures w))),
               Console (if outcome (tl (failures w)) then ''Subscribed to''
                        else ''Error subscribing to room:'')]))
     @ [SocketEmit socket ''joined_room'' (joined_ack e now room)]"
  by (simp add: join_local_def Let_def storeConnection_trace storeConnection_result
      subscribeToRoom_trace)



lemma join_announce_trace:
  "\<exists>xs a b c d.
     trace (join_announce e now uid room uname w) =
       trace w @ xs @
       [Redis (PUBLISH (''room:'' @ room) (JSON_stringify e (join_message e now uid uname room))) a,
        Console c,
        Redis (PUBLISH (''room:'' @ room)
                 (JSON_stringify e (room_info_message e now room
                                      (userCount (fst (getRoomStats e now room w)))))) b,
        Console d]
     \<and> list_all registry_only xs"
proof -
  obtain stats w1 where g: "getRoomStats e now room w = (stats, w1)"
    by (cases "getRoomStats e now room w")
  have "scanned w w1" using scanned_getRoomStats [of w e now room] g by simp
  then obtain xs where xs: "trace w1 = trace w @ xs" "list_all registry_only xs"
    by (auto simp: scanned_def)
  show ?thesis
    using g xs by (simp add: join_announce_def publishToRoom_trace Let_def)
qed


lemma join_room_valid:
  "map_of d ''userId'' = Some uid \<Longrightarrow> uid \<noteq> [] \<Longrightarrow> map_of d ''roomId'' = Some room \<Longrightarrow> room \<noteq> []
   \<Longrightarrow> map_of d ''userName'' = Some uname \<Longrightarrow> uname \<noteq> []
   \<Longrightarrow> join_room e now socket (Some d) w = join_valid e now socket uid room uname w"
  by (simp add: join_room_def falsy_def)

text \<open>
  C6. For a join request with \<open>userId\<close>, \<open>roomId\<close> and \<open>userName\<close> all present and
  non-empty, whatever the backend does, the handler emits the \<open>joined_room\<close>
  confirmation to the requesting socket, no \<^verbatim>\<open>PUBLISH\<close> is issued before it, and the
  \<open>user_joined\<close> and \<open>room_info\<close> envelopes are published after it, in this order.
\<close>

theorem join_confirmation_precedes_broadcast:
  "map_of d ''userId'' = Some uid \<and> uid \<noteq> [] \<and> map_of d ''roomId'' = Some room \<and> room \<noteq> []
     \<and> map_of d ''userName'' = Some uname \<and> uname \<noteq> [] \<longrightarrow>
   (\<exists>pre post n.
      since w (join_room e now socket (Some d) w)
        = pre @ SocketEmit socket ''joined_room'' (joined_ack e now room) # post
      \<and> publishes pre = []
      \<and> publishes post =
          [(''room:'' @ room, JSON_stringify e (join_message e now uid uname room)),
           (''room:'' @ room, JSON_stringify e (room_info_message e now room n))])"
proof
  assume v: "map_of d ''userId'' = Some uid \<and> uid \<noteq> [] \<and> map_of d ''roomId'' = Some room \<and> room \<noteq> []
     \<and> map_of d ''userName'' = Some uname \<and> uname \<noteq> []"
  let ?w1 = "join_local e now socket uid room uname w"
  have j: "join_room e now socket (Some d) w = join_announce e now uid room uname ?w1"
    using v by (simp add: join_room_valid join_valid_def)
  obtain pre where pre: "trace ?w1 = trace w @ pre @ [SocketEmit socket ''joined_room'' (joined_ack e now room)]"
      "publishes pre = []"
  proof
    show "trace ?w1 = trace w @
     (Console ''User joining room''
      # Redis (SETEX (''connection:'' @ socket) 3600
                (JSON_stringify e (JObj (stored_record e now
                   (object_of \<lparr>userId = uid, roomId = room, userName = uname, socketId = socket,
                               joinedAt = now, serverId = SERVER_ID e\<rparr>)))))
              (outcome (failures w))
      # (if outcome (failures w) then [] else [Console ''Error storing connection:''])
      @ (if room \<in> set (subscribedRooms w) then []
         else [Redis (SUBSCRIBE (''room:'' @ room)) (outcome (tl (failures w))),
               Console (if outcome (tl (failures w)) then ''Subscribed to''
                        else ''Error subscribing to room:'')]))
     @ [SocketEmit socket ''joined_room'' (joined_ack e now room)]"
      by (rule join_local_trace)
    show "publishes (Console ''User joining room''
      # Redis (SETEX (''connection:'' @ socket) 3600
                (JSON_stringify e (JObj (stored_record e now
                   (object_of \<lparr>userId = uid, roomId = room, userName = uname, socketId = socket,
                               joinedAt = now, serverId = SERVER_ID e\<rparr>)))))
              (outcome (failures w))
      # (if outcome (failures w) then [] else [Console ''Error storing connection:''])
      @ (if room \<in> set (subscribedRooms w) then []
         else [Redis (SUBSCRIBE (''room:'' @ room)) (outcome (tl (failures w))),
               Console (if outcome (tl (failures w)) then ''Subscribed to''
                        else ''Error subscribing to room:'')])) = []"
      by simp
  qed
  obtain xs a b c d' where post:
    "trace (join_announce e now uid room uname ?w1) =
       trace ?w1 @ xs @
       [Redis (PUBLISH (''room:'' @ room) (JSON_stringify e (join_message e now uid uname room))) a,
        Console c,
        Redis (PUBLISH (''room:'' @ room)
                 (JSON_stringify e (room_info_message e now room
                                      (userCount (fst (getRoomStats e now room ?w1)))))) b,
        Console d']"
    "list_all registry_only xs"
    using join_announce_trace [of e now uid room uname ?w1] by blast
  let ?post = "xs @
       [Redis (PUBLISH (''room:'' @ room) (JSON_stringify e (join_message e now uid uname room))) a,
        Console c,
        Redis (PUBLISH (''room:'' @ room)
                 (JSON_stringify e (room_info_message e now room
                                      (userCount (fst (getRoomStats e now room ?w1)))))) b,
        Console d']"
  have "since w (join_room e now socket (Some d) w)
          = pre @ SocketEmit socket ''joined_room'' (joined_ack e now room) # ?post"
    using j pre(1) post(1) by (simp add: since_def)
  moreover have "publishes ?post =
          [(''room:'' @ room, JSON_stringify e (join_message e now uid uname room)),
           (''room:'' @ room, JSON_stringify e (room_info_message e now room
                                      (userCount (fst (getRoomStats e now room ?w1)))))]"
    using registry_only_quiet [OF post(2)] by simp
  ultimately show "\<exists>pre post n.
      since w (join_room e now socket (Some d) w)
        = pre @ SocketEmit socket ''joined_room'' (joined_ack e now room) # post
      \<and> publishes pre = []
      \<and> publishes post =
          [(''room:'' @ room, JSON_stringify e (join_message e now uid uname room)),
           (''room:'' @ room, JSON_stringify e (room_info_message e now room n))]"
    using pre(2) by blast
qed


theorem join_confirmation_precedes_broadcast_witness:
  "map_of demo_join ''userId'' = Some ''U1'' \<and> map_of demo_join ''roomId'' = Some ''R1''
   \<and> map_of demo_join ''userName'' = Some ''Alice''
   \<and> (\<exists>pre post n.
        since (boot [] []) (join_room demo_env 100 ''s1'' (Some demo_join) (boot [] []))
          = pre @ SocketEmit ''s1'' ''joined_room'' (joined_ack demo_env 100 ''R1'') # post
        \<and> publishes pre = []
        \<and> publishes post =
            [(''room:R1'', JSON_stringify demo_env (join_message demo_env 100 ''U1'' ''Alice'' ''R1'')),
             (''room:R1'', JSON_stringify demo_env (room_info_message demo_env 100 ''R1'' n))])"
  using join_confirmation_precedes_broadcast
          [of demo_join "''U1''" "''R1''" "''Alice''" "boot [] []" demo_env 100 "''s1''"]
  by (simp add: demo_join_def)







subsection \<open>getRoomStats\<close>

lemma inspect_cases:
  "JSON_parse e [] = None \<Longrightarrow>
   inspect e room acc r =
     (if torn e r then None
      else Some (case candidate e room r of None \<Rightarrow> acc | Some c \<Rightarrow> tally_add acc c))"
  by (cases acc) (auto simp: inspect_def torn_def candidate_def tally_add_def split: option.splits)

lemma torn_candidate: "torn e r \<Longrightarrow> candidate e room r = None"
  by (auto simp: torn_def candidate_def nullish_def same_value_def split: option.splits)

lemma redis_get_healthy:
  "failures w = [] \<Longrightarrow>
   redis_get now key w = (Some (lookup_live now (registry w) key), w\<lparr>trace := trace w @ [Redis (GET key) True]\<rparr>)"
  by (simp add: redis_get_def next_outcome_def emit_def Let_def)

lemma redis_del_healthy:
  "failures w = [] \<Longrightarrow>
   redis_del key w = (True, w\<lparr>trace := trace w @ [Redis (DEL key) True],
                               registry := AList.delete key (registry w)\<rparr>)"
  by (simp add: redis_del_def next_outcome_def emit_def Let_def)

lemma redis_keys_healthy:
  "failures w = [] \<Longrightarrow>
   redis_keys now ''connection:'' w =
     (Some (scan_keys now (registry w)), w\<lparr>trace := trace w @ [Redis (KEYS ''connection:*'') True]\<rparr>)"
  by (simp add: redis_keys_def next_outcome_def emit_def Let_def scan_keys_def)

lemma scan_healthy:
  "failures w = [] \<Longrightarrow>
   fst (scan e now room keys acc w) = Some (fst (sweep e now room keys acc (registry w)))
   \<and> registry (snd (scan e now room keys acc w)) = snd (sweep e now room keys acc (registry w))
   \<and> failures (snd (scan e now room keys acc w)) = []"
proof (induction keys arbitrary: acc w)
  case Nil
  then show ?case by simp
next
  case (Cons key keys)
  let ?w1 = "w\<lparr>trace := trace w @ [Redis (GET key) True]\<rparr>"
  show ?case
  proof (cases "inspect e room acc (lookup_live now (registry w) key)")
    case (Some acc')
    have "failures ?w1 = []" using Cons.prems by simp
    from Cons.IH [OF this, of acc'] show ?thesis
      using Some Cons.prems by (simp add: redis_get_healthy)
  next
    case None
    let ?w2 = "?w1\<lparr>trace := trace ?w1 @ [Console ''Failed to parse connection data for key:'',
                                           Redis (DEL key) True],
                     registry := AList.delete key (registry w)\<rparr>"
    have "failures ?w2 = []" using Cons.prems by simp
    from Cons.IH [OF this, of acc] show ?thesis
      using None Cons.prems by (simp add: redis_get_healthy redis_del_healthy console_def emit_def)
  qed
qed


lemma inspect_None_iff: "inspect e room acc r = None \<longleftrightarrow> torn e r"
  by (cases acc) (auto simp: inspect_def torn_def split: option.splits)

lemma lookup_live_delete:
  "lookup_live now (AList.delete key reg) k = (if k = key then None else lookup_live now reg k)"
  by (simp add: lookup_live_def AList.delete_conv')

lemma lookup_live_filter:
  "lookup_live now [p \<leftarrow> reg. fst p \<notin> D] k = (if k \<in> D then None else lookup_live now reg k)"
proof -
  have "map_of [p \<leftarrow> reg. fst p \<notin> D] k = (if k \<in> D then None else map_of reg k)"
    by (induction reg) auto
  then show ?thesis by (simp add: lookup_live_def)
qed

lemma sweep_registry:
  "snd (sweep e now room keys acc reg) =
     [p \<leftarrow> reg. fst p \<notin> {k \<in> set keys. torn e (lookup_live now reg k)}]"
proof (induction keys arbitrary: acc reg)
  case Nil
  show ?case by simp
next
  case (Cons key keys)
  show ?case
  proof (cases "torn e (lookup_live now reg key)")
    case False
    then obtain acc' where a: "inspect e room acc (lookup_live now reg key) = Some acc'"
      using inspect_None_iff [of e room acc "lookup_live now reg key"] by (cases "inspect e room acc (lookup_live now reg key)") auto
    have "[p \<leftarrow> reg. fst p \<notin> {k \<in> set keys. torn e (lookup_live now reg k)}]
           = [p \<leftarrow> reg. fst p \<notin> {k \<in> set (key # keys). torn e (lookup_live now reg k)}]"
      using False by (intro filter_cong) auto
    then show ?thesis using a Cons.IH [of acc' reg] by simp
  next
    case True
    then have a: "inspect e room acc (lookup_live now reg key) = None"
      by (simp add: inspect_None_iff)
    have d: "AList.delete key reg = [p \<leftarrow> reg. fst p \<noteq> key]"
      by (simp add: AList.delete_eq case_prod_beta' eq_commute)
    have "[p \<leftarrow> AList.delete key reg.
             fst p \<notin> {k \<in> set keys. torn e (lookup_live now (AList.delete key reg) k)}]
           = [p \<leftarrow> reg. fst p \<notin> {k \<in> set (key # keys). torn e (lookup_live now reg k)}]"
      unfolding d filter_filter using True
      by (intro filter_cong) (auto simp: lookup_live_delete d [symmetric])
    then show ?thesis using a Cons.IH [of acc "AList.delete key reg"] by simp
  qed
qed

lemma sweep_tally:
  assumes "JSON_parse e [] = None"
      and "\<forall>k. lookup_live now reg' k = lookup_live now reg k
               \<or> (lookup_live now reg' k = None \<and> torn e (lookup_live now reg k))"
  shows "fst (sweep e now room keys acc reg') =
           foldl tally_add acc (List.map_filter (\<lambda>k. candidate e room (lookup_live now reg k)) keys)"
  using assms(2)
proof (induction keys arbitrary: acc reg')
  case Nil
  show ?case by (simp add: List.map_filter_simps)
next
  case (Cons key keys)
  from Cons.prems have
    "lookup_live now reg' key = lookup_live now reg key
       \<or> (lookup_live now reg' key = None \<and> torn e (lookup_live now reg key))"
    by blast
  then show ?case
  proof
    assume same: "lookup_live now reg' key = lookup_live now reg key"
    show ?thesis
    proof (cases "torn e (lookup_live now reg key)")
      case True
      have p: "\<forall>k. lookup_live now (AList.delete key reg') k = lookup_live now reg k
               \<or> (lookup_live now (AList.delete key reg') k = None \<and> torn e (lookup_live now reg k))"
        using Cons.prems True by (auto simp: lookup_live_delete)
      show ?thesis
        using True same Cons.IH [OF p, of acc]
        by (simp add: inspect_cases [OF assms(1)] torn_candidate List.map_filter_simps)
    next
      case False
      show ?thesis
        using False same Cons.IH [OF Cons.prems]
        by (simp add: inspect_cases [OF assms(1)] List.map_filter_simps split: option.splits)
    qed
  next
    assume gone: "lookup_live now reg' key = None \<and> torn e (lookup_live now reg key)"
    have c: "candidate e room (lookup_live now reg key) = None"
      using gone by (simp add: torn_candidate)
    have i: "inspect e room acc (lookup_live now reg' key) = Some acc"
      using gone by (simp add: inspect_def)
    show ?thesis
      using c i Cons.IH [OF Cons.prems, of acc] by (simp add: List.map_filter_simps)
  qed
qed

lemma has_seen:
  "has (map (\<lambda>c. get_prop c ''userId'') seen) (get_prop c ''userId'') \<longleftrightarrow> (\<exists>x\<in>set seen. set_same_user x c)"
  by (auto simp: has_def list_ex_iff set_same_user_def)

lemma tally_kept_by_set:
  "foldl tally_add (n, map roster_entry seen, map (\<lambda>c. get_prop c ''userId'') seen) cs =
     (n + length [d \<leftarrow> kept_by_set cs. \<not> (\<exists>x\<in>set seen. set_same_user x d)],
      map roster_entry (seen @ [d \<leftarrow> kept_by_set cs. \<not> (\<exists>x\<in>set seen. set_same_user x d)]),
      map (\<lambda>c. get_prop c ''userId'') (seen @ [d \<leftarrow> kept_by_set cs. \<not> (\<exists>x\<in>set seen. set_same_user x d)]))"
proof (induction cs arbitrary: n seen)
  case Nil
  show ?case by simp
next
  case (Cons c cs)
  show ?case
  proof (cases "\<exists>x\<in>set seen. set_same_user x c")
    case True
    then obtain x where x: "x \<in> set seen" "set_same_user x c" by blast
    have imp: "\<And>d. \<not> (\<exists>x\<in>set seen. set_same_user x d) \<Longrightarrow> \<not> set_same_user c d"
      using x by (auto simp: set_same_user_def same_value_def)
    have f: "[d \<leftarrow> kept_by_set (c # cs). \<not> (\<exists>x\<in>set seen. set_same_user x d)]
           = [d \<leftarrow> kept_by_set cs. \<not> (\<exists>x\<in>set seen. set_same_user x d)]"
      using True imp by (auto intro: filter_cong)
    have "tally_add (n, map roster_entry seen, map (\<lambda>c. get_prop c ''userId'') seen) c
            = (n, map roster_entry seen, map (\<lambda>c. get_prop c ''userId'') seen)"
      using True by (simp add: tally_add_def has_seen)
    then show ?thesis
      unfolding f using Cons.IH [of n seen] by simp
  next
    case False
    have f: "[d \<leftarrow> kept_by_set (c # cs). \<not> (\<exists>x\<in>set seen. set_same_user x d)]
           = c # [d \<leftarrow> kept_by_set cs. \<not> (\<exists>x\<in>set (seen @ [c]). set_same_user x d)]"
      using False by (auto intro: filter_cong)
    have "tally_add (n, map roster_entry seen, map (\<lambda>c. get_prop c ''userId'') seen) c
            = (n + 1, map roster_entry (seen @ [c]), map (\<lambda>c. get_prop c ''userId'') (seen @ [c]))"
      using False by (simp add: tally_add_def has_seen)
    then show ?thesis
      unfolding f using Cons.IH [of "n + 1" "seen @ [c]"] by simp
  qed
qed

lemma kept_by_set_subset: "set (kept_by_set cs) \<subseteq> set cs"
  by (induction cs) auto








lemma getRoomStats_healthy:
  assumes "failures w = []" "JSON_parse e [] = None"
  shows "users (fst (getRoomStats e now room w))
           = map roster_entry (kept_by_set (room_connections e now room (registry w)))"
    and "userCount (fst (getRoomStats e now room w))
           = length (kept_by_set (room_connections e now room (registry w)))"
    and "registry (snd (getRoomStats e now room w))
           = [p \<leftarrow> registry w. fst p \<notin> {k \<in> set (scan_keys now (registry w)).
                                             torn e (lookup_live now (registry w) k)}]"
    and "failures (snd (getRoomStats e now room w)) = []"
proof -
  let ?w1 = "w\<lparr>trace := trace w @ [Redis (KEYS ''connection:*'') True]\<rparr>"
  let ?keys = "scan_keys now (registry w)"
  have k: "redis_keys now ''connection:'' w = (Some ?keys, ?w1)"
    using assms(1) by (rule redis_keys_healthy)
  have f1: "failures ?w1 = []" using assms(1) by simp
  obtain r w2 where sc: "scan e now room ?keys (0, [], []) ?w1 = (r, w2)"
    by (cases "scan e now room ?keys (0, [], []) ?w1")
  from scan_healthy [OF f1, of e now room ?keys "(0, [], [])"] sc
  have r: "r = Some (fst (sweep e now room ?keys (0, [], []) (registry w)))"
    and reg: "registry w2 = snd (sweep e now room ?keys (0, [], []) (registry w))"
    and f2: "failures w2 = []"
    by simp_all
  have t: "fst (sweep e now room ?keys (0, [], []) (registry w))
             = foldl tally_add (0, [], []) (room_connections e now room (registry w))"
    unfolding room_connections_def
    by (rule sweep_tally [OF assms(2)]) simp
  have t2: "foldl tally_add (0, [], []) (room_connections e now room (registry w))
             = (length (kept_by_set (room_connections e now room (registry w))),
                map roster_entry (kept_by_set (room_connections e now room (registry w))),
                map (\<lambda>c. get_prop c ''userId'') (kept_by_set (room_connections e now room (registry w))))"
    using tally_kept_by_set [of 0 "[]" "room_connections e now room (registry w)"] by simp
  have g: "getRoomStats e now room w =
             (\<lparr>stats_roomId = room,
               userCount = length (kept_by_set (room_connections e now room (registry w))),
               users = map roster_entry (kept_by_set (room_connections e now room (registry w))),
               stats_timestamp = toISOString e now\<rparr>, w2)"
    using k sc r t t2 by (simp add: getRoomStats_def)
  show "users (fst (getRoomStats e now room w))
           = map roster_entry (kept_by_set (room_connections e now room (registry w)))"
    by (simp add: g)
  show "userCount (fst (getRoomStats e now room w))
           = length (kept_by_set (room_connections e now room (registry w)))"
    by (simp add: g)
  show "registry (snd (getRoomStats e now room w))
           = [p \<leftarrow> registry w. fst p \<notin> {k \<in> set (scan_keys now (registry w)).
                                             torn e (lookup_live now (registry w) k)}]"
    by (simp add: g reg sweep_registry)
  show "failures (snd (getRoomStats e now room w)) = []"
    by (simp add: g f2)
qed

lemma map_filter_filter:
  "\<forall>x\<in>set xs. (P x \<longrightarrow> f x = g x) \<and> (\<not> P x \<longrightarrow> g x = None)
   \<Longrightarrow> List.map_filter f (filter P xs) = List.map_filter g xs"
  by (induction xs) (auto simp: List.map_filter_simps split: option.splits)

lemma scan_keys_filter:
  "scan_keys now [p \<leftarrow> reg. fst p \<notin> D] = [k \<leftarrow> scan_keys now reg. k \<notin> D]"
proof -
  have "map fst [p \<leftarrow> reg. fst p \<notin> D] = [k \<leftarrow> map fst reg. k \<notin> D]"
    by (induction reg) auto
  then show ?thesis
    by (auto simp: scan_keys_def lookup_live_filter intro: filter_cong)
qed

lemma room_connections_pruned:
  assumes "\<And>k. k \<in> D \<Longrightarrow> torn e (lookup_live now reg k)"
  shows "room_connections e now room [p \<leftarrow> reg. fst p \<notin> D] = room_connections e now room reg"
  unfolding room_connections_def scan_keys_filter
  by (rule map_filter_filter) (simp add: lookup_live_filter assms torn_candidate)

lemmas scan_defs = getRoomStats_def redis_keys_def redis_get_def redis_del_def next_outcome_def
  emit_def console_def boot_def setupRedisMessageHandler_def Let_def lookup_live_def inspect_def
  nullish_def same_value_def has_def roster_entry_def demo_env_def demo_parse_def demo_registry_def
  entry_alice_def entry_bob_def entry_carol_def entry_torn_def chat_from_beta_def
  chat_from_self_def chat_from_beta_colon_def entry_dan_def

lemma demo_stats:
  "getRoomStats demo_env 100 ''R1'' (boot demo_registry [])
     = (\<lparr>stats_roomId = ''R1'', userCount = 2,
          users = [JObj [(''userId'', JStr ''U1''), (''userName'', JStr ''Alice''),
                         (''serverId'', JUndef), (''joinedAt'', JUndef)],
                   JObj [(''userId'', JStr ''U2''), (''userName'', JStr ''Bob''),
                         (''serverId'', JUndef), (''joinedAt'', JUndef)]],
          stats_timestamp = ''1970-01-01T00:00:00.000Z''\<rparr>,
        (boot [(''connection:c1'', entry_alice, 3600), (''connection:c3'', entry_bob, 3600),
               (''connection:c4'', entry_alice, 3600), (''connection:c5'', entry_carol, 3600)] [])
          \<lparr>trace := [Redis (KEYS ''connection:*'') True, Redis (GET ''connection:c1'') True,
                      Redis (GET ''connection:c2'') True,
                      Console ''Failed to parse connection data for key:'',
                      Redis (DEL ''connection:c2'') True, Redis (GET ''connection:c3'') True,
                      Redis (GET ''connection:c4'') True, Redis (GET ''connection:c5'') True]\<rparr>)"
  by (simp add: scan_defs)



lemma boot_fields [simp]:
  "failures (boot reg fs) = fs" "registry (boot reg fs) = reg" "trace (boot reg fs) = []"
  "listeners (boot reg fs) = [RelayListener]" "activeConnections (boot reg fs) = []"
  by (simp_all add: boot_def setupRedisMessageHandler_def)

lemma demo_parse_facts:
  "JSON_parse demo_env [] = None" "JSON_parse demo_env entry_torn = None" "entry_torn \<noteq> []"
  by (simp_all add: demo_env_def demo_parse_def entry_alice_def entry_bob_def entry_carol_def
      entry_torn_def chat_from_beta_def chat_from_self_def chat_from_beta_colon_def entry_dan_def)

lemma demo_scan_keys:
  "scan_keys 100 demo_registry
     = [''connection:c1'', ''connection:c2'', ''connection:c3'', ''connection:c4'', ''connection:c5'']"
  "lookup_live 100 demo_registry ''connection:c2'' = Some entry_torn"
  by (simp_all add: scan_keys_def lookup_live_def demo_registry_def)







text \<open>
  C7, as stated, fails for one value: the empty text does not parse, but the scan skips
  an entry with an empty value (\<^verbatim>\<open>if (connectionData)\<close>) without parsing it, and the
  entry stays in the registry.
\<close>

theorem empty_value_not_deleted:
  "JSON_parse demo_env [] = None
   \<and> getRoomStats demo_env 100 ''R1'' (boot [(''connection:c1'', [], 3600)] [])
       = (\<lparr>stats_roomId = ''R1'', userCount = 0, users = [],
            stats_timestamp = ''1970-01-01T00:00:00.000Z''\<rparr>,
          (boot [(''connection:c1'', [], 3600)] [])
            \<lparr>trace := [Redis (KEYS ''connection:*'') True, Redis (GET ''connection:c1'') True]\<rparr>)
   \<and> registry (snd (getRoomStats demo_env 100 ''R1'' (boot [(''connection:c1'', [], 3600)] [])))
       = [(''connection:c1'', [], 3600)]"
  by (simp add: scan_defs)

text \<open>
  C7, amended. With the backend answering every call, a scan deletes every entry it
  visits whose value is not empty and fails to parse, keeps every entry whose value is
  empty, parses to a value other than \<^verbatim>\<open>null\<close>, or has expired, and returns the roster
  and count of the registry without the deleted entries: they contribute nothing, and the
  entries after them are scanned.
\<close>

theorem corrupt_entries_deleted_and_skipped:
  "failures w = [] \<and> JSON_parse e [] = None \<longrightarrow>
     (\<forall>k v. k \<in> set (scan_keys now (registry w)) \<and> lookup_live now (registry w) k = Some v
             \<and> v \<noteq> [] \<and> JSON_parse e v = None
        \<longrightarrow> k \<notin> fst ` set (registry (snd (getRoomStats e now room w))))
     \<and> (\<forall>p\<in>set (registry w). \<not> torn e (lookup_live now (registry w) (fst p))
        \<longrightarrow> p \<in> set (registry (snd (getRoomStats e now room w))))
     \<and> users (fst (getRoomStats e now room w))
         = users (fst (getRoomStats e now room
             (w\<lparr>registry := [p \<leftarrow> registry w. \<not> torn e (lookup_live now (registry w) (fst p))]\<rparr>)))
     \<and> userCount (fst (getRoomStats e now room w))
         = userCount (fst (getRoomStats e now room
             (w\<lparr>registry := [p \<leftarrow> registry w. \<not> torn e (lookup_live now (registry w) (fst p))]\<rparr>)))"
proof
  assume h: "failures w = [] \<and> JSON_parse e [] = None"
  then have f: "failures w = []" and p: "JSON_parse e [] = None" by simp_all
  let ?clean = "w\<lparr>registry := [p \<leftarrow> registry w. \<not> torn e (lookup_live now (registry w) (fst p))]\<rparr>"
  note g = getRoomStats_healthy [OF f p, of now room]
  have fc: "failures ?clean = []" using f by simp
  note gc = getRoomStats_healthy [OF fc p, of now room]
  have "[p \<leftarrow> registry w. \<not> torn e (lookup_live now (registry w) (fst p))]
          = [p \<leftarrow> registry w. fst p \<notin> {k. torn e (lookup_live now (registry w) k)}]"
    by simp
  then have same: "room_connections e now room (registry ?clean) = room_connections e now room (registry w)"
    using room_connections_pruned [of "{k. torn e (lookup_live now (registry w) k)}" e now "registry w" room]
    by simp
  have a: "\<forall>k v. k \<in> set (scan_keys now (registry w)) \<and> lookup_live now (registry w) k = Some v
             \<and> v \<noteq> [] \<and> JSON_parse e v = None
        \<longrightarrow> k \<notin> fst ` set (registry (snd (getRoomStats e now room w)))"
    unfolding g(3) by (auto simp: torn_def)
  have b: "\<forall>p\<in>set (registry w). \<not> torn e (lookup_live now (registry w) (fst p))
        \<longrightarrow> p \<in> set (registry (snd (getRoomStats e now room w)))"
    unfolding g(3) by auto
  have c: "users (fst (getRoomStats e now room w)) = users (fst (getRoomStats e now room ?clean))"
    unfolding g(1) gc(1) same ..
  have d: "userCount (fst (getRoomStats e now room w)) = userCount (fst (getRoomStats e now room ?clean))"
    unfolding g(2) gc(2) same ..
  show "(\<forall>k v. k \<in> set (scan_keys now (registry w)) \<and> lookup_live now (registry w) k = Some v
             \<and> v \<noteq> [] \<and> JSON_parse e v = None
        \<longrightarrow> k \<notin> fst ` set (registry (snd (getRoomStats e now room w))))
     \<and> (\<forall>p\<in>set (registry w). \<not> torn e (lookup_live now (registry w) (fst p))
        \<longrightarrow> p \<in> set (registry (snd (getRoomStats e now room w))))
     \<and> users (fst (getRoomStats e now room w)) = users (fst (getRoomStats e now room ?clean))
     \<and> userCount (fst (getRoomStats e now room w)) = userCount (fst (getRoomStats e now room ?clean))"
    using a b c d by blast
qed

theorem corrupt_entries_deleted_and_skipped_witness:
  "failures (boot demo_registry []) = [] \<and> JSON_parse demo_env [] = None
   \<and> ''connection:c2'' \<in> set (scan_keys 100 (registry (boot demo_registry [])))
   \<and> lookup_live 100 (registry (boot demo_registry [])) ''connection:c2'' = Some entry_torn
   \<and> entry_torn \<noteq> [] \<and> JSON_parse demo_env entry_torn = None
   \<and> ''connection:c2'' \<notin> fst ` set (registry (snd (getRoomStats demo_env 100 ''R1'' (boot demo_registry []))))
   \<and> map fst (registry (snd (getRoomStats demo_env 100 ''R1'' (boot demo_registry []))))
       = [''connection:c1'', ''connection:c3'', ''connection:c4'', ''connection:c5'']
   \<and> userCount (fst (getRoomStats demo_env 100 ''R1'' (boot demo_registry []))) = 2"
  using corrupt_entries_deleted_and_skipped [of "boot demo_registry []" demo_env 100 "''R1''"]
  by (simp add: demo_stats demo_scan_keys demo_parse_facts)

end
